theory Spec2Isabelle
  imports Main "HOL-Library.Monad_Syntax" "HOL-Library.AList" "HOL-Library.Multiset"
begin

section \<open>The Wasm GC type analysis of Turboshaft (wasm-gc-type-reducer.cc)\<close>

text \<open>
  A shallow embedding of \<^verbatim>\<open>WasmGCTypeAnalyzer\<close>. Every member function of the
  analyzer is a function on an explicit analyzer state. A result of type \<open>option\<close> is
  \<open>None\<close> when the C++ call does not return normally: a failed \<^verbatim>\<open>DCHECK\<close>, a
  \<^verbatim>\<open>.value()\<close> on an empty optional, a null dereference, or the \<^verbatim>\<open>while (true)\<close>
  of \<^verbatim>\<open>ResolveAliases\<close> running forever.
\<close>

subsection \<open>Graph, blocks and operations\<close>

type_synonym OpIndex = nat
type_synonym BlockIndex = nat

text \<open>
  The operations the analysis looks at, with the operands it reads. The type \<open>'t\<close> is
  \<^verbatim>\<open>wasm::ValueType\<close>, which the analysis only handles through the functions of
  \<open>TypeOracle\<close> below. \<open>StructGet\<close> carries the field types of its struct type and the
  field index. \<open>Other\<close> stands for every opcode of the \<^verbatim>\<open>default\<close> branches.
\<close>

datatype 't Operation =
    WasmTypeCast OpIndex 't
  | WasmTypeCheck OpIndex 't
  | AssertNotNull OpIndex 't
  | Null 't
  | IsNull OpIndex 't
  | Parameter int
  | StructGet OpIndex "'t list" nat
  | StructSet OpIndex
  | ArrayLength OpIndex
  | GlobalGet 't
  | WasmRefFunc nat
  | WasmAllocateArray OpIndex
  | WasmAllocateStruct OpIndex
  | RttCanon nat
  | Phi "OpIndex list"
  | WasmTypeAnnotation OpIndex 't
  | Branch OpIndex BlockIndex BlockIndex
  | Goto BlockIndex
  | Other

datatype BlockKind = kMerge | kLoopHeader | kBranchTarget

text \<open>
  A block: \<open>Predecessors\<close> is in the original order (the first is the forward edge of a
  loop header, the last its back edge), \<open>OperationIndices\<close> in program order. A
  block is identified by its index (\<^verbatim>\<open>block.index().id()\<close>): where the C++ passes a
  \<^verbatim>\<open>const Block&\<close> or compares block pointers, the model passes and compares block
  indices, and \<open>GetBlock\<close> gives the block's data.
\<close>

record Block =
  kind :: BlockKind
  Predecessors :: "BlockIndex list"
  OperationIndices :: "OpIndex list"

record 't Graph =
  Get :: "OpIndex \<Rightarrow> 't Operation"
  GetBlock :: "BlockIndex \<Rightarrow> Block"

definition IsLoop :: "Block \<Rightarrow> bool" where
  "IsLoop b = (kind b = kLoopHeader)"

definition IsBranchTarget :: "Block \<Rightarrow> bool" where
  "IsBranchTarget b = (kind b = kBranchTarget)"

definition HasPredecessors :: "Block \<Rightarrow> bool" where
  "HasPredecessors b = (Predecessors b \<noteq> [])"

text \<open>\<^verbatim>\<open>LastPredecessor()\<close> is a null pointer for a block without predecessors.\<close>

definition LastPredecessor :: "Block \<Rightarrow> BlockIndex option" where
  "LastPredecessor b = (if Predecessors b = [] then None else Some (last (Predecessors b)))"

text \<open>\<^verbatim>\<open>LastPredecessor()->NeighboringPredecessor()\<close>: the predecessor before the last.\<close>

definition NeighboringOfLastPredecessor :: "Block \<Rightarrow> BlockIndex option" where
  "NeighboringOfLastPredecessor b =
     (case rev (Predecessors b) of _ # p # _ \<Rightarrow> Some p | _ \<Rightarrow> None)"

text \<open>\<^verbatim>\<open>PredecessorsIterable()\<close> walks from the last predecessor to the first.\<close>

definition PredecessorsIterable :: "Block \<Rightarrow> BlockIndex list" where
  "PredecessorsIterable b = rev (Predecessors b)"

definition LastOperation :: "'t Graph \<Rightarrow> Block \<Rightarrow> 't Operation option" where
  "LastOperation g b =
     (if OperationIndices b = [] then None else Some (Get g (last (OperationIndices b))))"

subsection \<open>The type oracle and the module\<close>

text \<open>
  \<^verbatim>\<open>wasm::ValueType\<close> and the functions on it are declared outside these sources, so
  they are parameters: \<open>Void\<close> is the default \<^verbatim>\<open>wasm::ValueType()\<close> (no type
  knowledge), \<open>ValueType_Ref\<close> is \<^verbatim>\<open>wasm::ValueType::Ref\<close>. The module and the
  signature are parameters too: \<open>sig_index\<close> is
  \<^verbatim>\<open>module_->functions[i].sig_index\<close>, \<open>GetParam\<close> is \<^verbatim>\<open>signature_->GetParam\<close>.
\<close>

record 't TypeOracle =
  Void :: 't
  kWasmBottom :: 't
  wasm_Union :: "'t \<Rightarrow> 't \<Rightarrow> 't"
  wasm_Intersection :: "'t \<Rightarrow> 't \<Rightarrow> 't"
  IsSubtypeOf :: "'t \<Rightarrow> 't \<Rightarrow> bool"
  AsNonNull :: "'t \<Rightarrow> 't"
  is_uninhabited :: "'t \<Rightarrow> bool"
  is_non_nullable :: "'t \<Rightarrow> bool"
  ToNullSentinel :: "'t \<Rightarrow> 't"
  ValueType_Ref :: "nat \<Rightarrow> 't"
  sig_index :: "nat \<Rightarrow> nat"
  GetParam :: "int \<Rightarrow> 't"
  kWasmInstanceParameterIndex :: int

definition DCHECK :: "bool \<Rightarrow> unit option" where
  "DCHECK c = (if c then Some () else None)"

subsection \<open>The snapshot table\<close>

text \<open>
  Modelled from the spec: the snapshot table (\<^verbatim>\<open>TypeSnapshotTable\<close>, declared in
  snapshot-table.h, which is not among the sources). A snapshot maps value identities to
  types, absent keys being \<open>Void\<close>. The table has an active snapshot between a start
  and the next seal; \<open>table_Get\<close> and \<open>table_Set\<close> read and write it;
  \<open>table_Seal\<close> returns it and leaves the table without an active snapshot. The table
  keeps the snapshots the active one was started from, for \<open>GetPredecessorValue\<close>
  ("predecessor i's contributed type"). A merge computes, for every key of some
  predecessor, the value of the merge function on the vector of the predecessors'
  values for that key.
\<close>

type_synonym 't Snapshot = "(OpIndex \<times> 't) list"

record 't TypeSnapshotTable =
  active :: "'t Snapshot option"
  started_from :: "'t Snapshot list"

definition snapshot_value :: "'t TypeOracle \<Rightarrow> 't Snapshot \<Rightarrow> OpIndex \<Rightarrow> 't" where
  "snapshot_value ora s k = (case map_of s k of None \<Rightarrow> Void ora | Some v \<Rightarrow> v)"

definition table_Get :: "'t TypeOracle \<Rightarrow> 't TypeSnapshotTable \<Rightarrow> OpIndex \<Rightarrow> 't option" where
  "table_Get ora tbl k = map_option (\<lambda>s. snapshot_value ora s k) (active tbl)"

definition table_Set ::
  "'t TypeSnapshotTable \<Rightarrow> OpIndex \<Rightarrow> 't \<Rightarrow> 't TypeSnapshotTable option" where
  "table_Set tbl k v =
     map_option (\<lambda>s. tbl\<lparr>active := Some (AList.update k v s)\<rparr>) (active tbl)"

definition table_Seal ::
  "'t TypeSnapshotTable \<Rightarrow> ('t Snapshot \<times> 't TypeSnapshotTable) option" where
  "table_Seal tbl = map_option (\<lambda>s. (s, tbl\<lparr>active := None\<rparr>)) (active tbl)"

definition StartNewSnapshot :: "'t TypeSnapshotTable \<Rightarrow> 't TypeSnapshotTable" where
  "StartNewSnapshot tbl = \<lparr>active = Some [], started_from = []\<rparr>"

definition StartNewSnapshot_from ::
  "'t Snapshot \<Rightarrow> 't TypeSnapshotTable \<Rightarrow> 't TypeSnapshotTable" where
  "StartNewSnapshot_from parent tbl = \<lparr>active = Some parent, started_from = [parent]\<rparr>"

definition GetPredecessorValue ::
  "'t TypeOracle \<Rightarrow> 't TypeSnapshotTable \<Rightarrow> OpIndex \<Rightarrow> nat \<Rightarrow> 't option" where
  "GetPredecessorValue ora tbl k i =
     (if i < length (started_from tbl) then Some (snapshot_value ora (started_from tbl ! i) k)
      else None)"

definition merge_keys :: "'t Snapshot list \<Rightarrow> OpIndex list" where
  "merge_keys predecessors = remdups (concat (map (map fst) predecessors))"

text \<open>
  The merge function is a C++ lambda that may update variables it captured by reference
  and may fail; \<open>'c\<close> is the state of the captured variables, threaded through the
  invocations key by key.
\<close>

fun merge_entries ::
  "'t TypeOracle \<Rightarrow> 't Snapshot list \<Rightarrow> (OpIndex \<Rightarrow> 't list \<Rightarrow> 'c \<Rightarrow> ('t \<times> 'c) option) \<Rightarrow>
   OpIndex list \<Rightarrow> 'c \<Rightarrow> ('t Snapshot \<times> 'c) option" where
  "merge_entries ora predecessors merge_fn [] c = Some ([], c)"
| "merge_entries ora predecessors merge_fn (k # ks) c =
     (case merge_fn k (map (\<lambda>s. snapshot_value ora s k) predecessors) c of
        None \<Rightarrow> None
      | Some (v, c') \<Rightarrow>
          (case merge_entries ora predecessors merge_fn ks c' of
             None \<Rightarrow> None
           | Some (entries, c'') \<Rightarrow> Some ((k, v) # entries, c'')))"

definition StartNewSnapshot_merge ::
  "'t TypeOracle \<Rightarrow> 't Snapshot list \<Rightarrow> (OpIndex \<Rightarrow> 't list \<Rightarrow> 'c \<Rightarrow> ('t \<times> 'c) option) \<Rightarrow>
   'c \<Rightarrow> 't TypeSnapshotTable \<Rightarrow> ('t TypeSnapshotTable \<times> 'c) option" where
  "StartNewSnapshot_merge ora predecessors merge_fn c tbl =
     map_option (\<lambda>(entries, c'). (\<lparr>active = Some entries, started_from = predecessors\<rparr>, c'))
       (merge_entries ora predecessors merge_fn (merge_keys predecessors) c)"

subsection \<open>The analyzer state\<close>

record 't WasmGCTypeAnalyzer =
  types_table :: "'t TypeSnapshotTable"
  block_to_snapshot :: "BlockIndex \<Rightarrow> 't Snapshot option"
  block_is_unreachable :: "BlockIndex set"
  input_type_map :: "OpIndex \<Rightarrow> 't option"
  current_block :: "BlockIndex option"
  is_first_loop_header_evaluation :: bool

subsection \<open>Alias resolution\<close>

partial_function (option) ResolveAliases :: "'t Graph \<Rightarrow> OpIndex \<Rightarrow> OpIndex option" where
  "ResolveAliases g object =
     (case Get g object of
        WasmTypeCast obj to \<Rightarrow> ResolveAliases g obj
      | AssertNotNull obj ty \<Rightarrow> ResolveAliases g obj
      | WasmTypeAnnotation val ty \<Rightarrow> ResolveAliases g val
      | _ \<Rightarrow> Some object)"

definition IsReachable :: "'t WasmGCTypeAnalyzer \<Rightarrow> BlockIndex \<Rightarrow> bool" where
  "IsReachable a block = (block \<notin> block_is_unreachable a)"

definition GetResolvedType ::
  "'t Graph \<Rightarrow> 't TypeOracle \<Rightarrow> 't WasmGCTypeAnalyzer \<Rightarrow> OpIndex \<Rightarrow> 't option" where
  "GetResolvedType g ora a object =
     do { r \<leftarrow> ResolveAliases g object; table_Get ora (types_table a) r }"

subsection \<open>Refinement of the type knowledge\<close>

definition RefineTypeKnowledge ::
  "'t Graph \<Rightarrow> 't TypeOracle \<Rightarrow> OpIndex \<Rightarrow> 't \<Rightarrow> 't WasmGCTypeAnalyzer \<Rightarrow>
   ('t \<times> 't WasmGCTypeAnalyzer) option" where
  "RefineTypeKnowledge g ora object new_type a =
     do {
       DCHECK (current_block a \<noteq> None);
       object \<leftarrow> ResolveAliases g object;
       previous_value \<leftarrow> table_Get ora (types_table a) object;
       let intersection_type =
             (if previous_value = Void ora then new_type
              else wasm_Intersection ora previous_value new_type);
       unreachable \<leftarrow>
         (if is_uninhabited ora intersection_type
          then map_option (\<lambda>b. insert b (block_is_unreachable a)) (current_block a)
          else Some (block_is_unreachable a));
       tbl \<leftarrow> table_Set (types_table a) object intersection_type;
       Some (previous_value, a\<lparr>types_table := tbl, block_is_unreachable := unreachable\<rparr>)
     }"

definition RefineTypeKnowledgeNotNull ::
  "'t Graph \<Rightarrow> 't TypeOracle \<Rightarrow> OpIndex \<Rightarrow> 't WasmGCTypeAnalyzer \<Rightarrow>
   ('t \<times> 't WasmGCTypeAnalyzer) option" where
  "RefineTypeKnowledgeNotNull g ora object a =
     do {
       object \<leftarrow> ResolveAliases g object;
       previous_value \<leftarrow> table_Get ora (types_table a) object;
       unreachable \<leftarrow>
         (if is_uninhabited ora previous_value
          then map_option (\<lambda>b. insert b (block_is_unreachable a)) (current_block a)
          else Some (block_is_unreachable a));
       tbl \<leftarrow> table_Set (types_table a) object (AsNonNull ora previous_value);
       Some (previous_value, a\<lparr>types_table := tbl, block_is_unreachable := unreachable\<rparr>)
     }"

text \<open>A call of \<^verbatim>\<open>RefineTypeKnowledge\<close> whose return value is dropped.\<close>

definition Refine ::
  "'t Graph \<Rightarrow> 't TypeOracle \<Rightarrow> OpIndex \<Rightarrow> 't \<Rightarrow> 't WasmGCTypeAnalyzer \<Rightarrow>
   't WasmGCTypeAnalyzer option" where
  "Refine g ora object new_type a = map_option snd (RefineTypeKnowledge g ora object new_type a)"

definition record_input_type ::
  "OpIndex \<Rightarrow> 't \<Rightarrow> 't WasmGCTypeAnalyzer \<Rightarrow> 't WasmGCTypeAnalyzer" where
  "record_input_type op_idx ty a = a\<lparr>input_type_map := (input_type_map a)(op_idx \<mapsto> ty)\<rparr>"

subsection \<open>The transfer functions\<close>

text \<open>
  Each function takes the index of the operation (\<^verbatim>\<open>graph_.Index(op)\<close>) and the
  operands the C++ reads from the operation.
\<close>

definition ProcessTypeCast ::
  "'t Graph \<Rightarrow> 't TypeOracle \<Rightarrow> OpIndex \<Rightarrow> OpIndex \<Rightarrow> 't \<Rightarrow> 't WasmGCTypeAnalyzer \<Rightarrow>
   't WasmGCTypeAnalyzer option" where
  "ProcessTypeCast g ora op_idx object target_type a =
     do {
       (known_input_type, a') \<leftarrow> RefineTypeKnowledge g ora object target_type a;
       Some (record_input_type op_idx known_input_type a')
     }"

definition ProcessTypeCheck ::
  "'t Graph \<Rightarrow> 't TypeOracle \<Rightarrow> OpIndex \<Rightarrow> OpIndex \<Rightarrow> 't WasmGCTypeAnalyzer \<Rightarrow>
   't WasmGCTypeAnalyzer option" where
  "ProcessTypeCheck g ora op_idx object a =
     do {
       ty \<leftarrow> GetResolvedType g ora a object;
       Some (record_input_type op_idx ty a)
     }"

definition ProcessAssertNotNull ::
  "'t Graph \<Rightarrow> 't TypeOracle \<Rightarrow> OpIndex \<Rightarrow> OpIndex \<Rightarrow> 't \<Rightarrow> 't WasmGCTypeAnalyzer \<Rightarrow>
   't WasmGCTypeAnalyzer option" where
  "ProcessAssertNotNull g ora op_idx object ty a =
     do {
       let new_type = AsNonNull ora ty;
       (known_input_type, a') \<leftarrow> RefineTypeKnowledge g ora object new_type a;
       Some (record_input_type op_idx known_input_type a')
     }"

definition ProcessIsNull ::
  "'t Graph \<Rightarrow> 't TypeOracle \<Rightarrow> OpIndex \<Rightarrow> OpIndex \<Rightarrow> 't WasmGCTypeAnalyzer \<Rightarrow>
   't WasmGCTypeAnalyzer option" where
  "ProcessIsNull g ora op_idx object a =
     do {
       ty \<leftarrow> GetResolvedType g ora a object;
       Some (record_input_type op_idx ty a)
     }"

definition ProcessParameter ::
  "'t Graph \<Rightarrow> 't TypeOracle \<Rightarrow> OpIndex \<Rightarrow> int \<Rightarrow> 't WasmGCTypeAnalyzer \<Rightarrow>
   't WasmGCTypeAnalyzer option" where
  "ProcessParameter g ora op_idx parameter_index a =
     (if parameter_index \<noteq> kWasmInstanceParameterIndex ora
      then Refine g ora op_idx (GetParam ora (parameter_index - 1)) a
      else Some a)"

text \<open>\<^verbatim>\<open>StructType::field(i)\<close> asserts that the index is in range.\<close>

definition struct_field :: "'t list \<Rightarrow> nat \<Rightarrow> 't option" where
  "struct_field field_types i =
     (if i < length field_types then Some (field_types ! i) else None)"

definition ProcessStructGet ::
  "'t Graph \<Rightarrow> 't TypeOracle \<Rightarrow> OpIndex \<Rightarrow> OpIndex \<Rightarrow> 't list \<Rightarrow> nat \<Rightarrow>
   't WasmGCTypeAnalyzer \<Rightarrow> 't WasmGCTypeAnalyzer option" where
  "ProcessStructGet g ora op_idx object field_types field_index a =
     do {
       (ty, a1) \<leftarrow> RefineTypeKnowledgeNotNull g ora object a;
       let a2 = record_input_type op_idx ty a1;
       field_type \<leftarrow> struct_field field_types field_index;
       Refine g ora op_idx field_type a2
     }"

definition ProcessStructSet ::
  "'t Graph \<Rightarrow> 't TypeOracle \<Rightarrow> OpIndex \<Rightarrow> OpIndex \<Rightarrow> 't WasmGCTypeAnalyzer \<Rightarrow>
   't WasmGCTypeAnalyzer option" where
  "ProcessStructSet g ora op_idx object a =
     do {
       (ty, a') \<leftarrow> RefineTypeKnowledgeNotNull g ora object a;
       Some (record_input_type op_idx ty a')
     }"

definition ProcessArrayLength ::
  "'t Graph \<Rightarrow> 't TypeOracle \<Rightarrow> OpIndex \<Rightarrow> OpIndex \<Rightarrow> 't WasmGCTypeAnalyzer \<Rightarrow>
   't WasmGCTypeAnalyzer option" where
  "ProcessArrayLength g ora op_idx array a =
     do {
       (ty, a') \<leftarrow> RefineTypeKnowledgeNotNull g ora array a;
       Some (record_input_type op_idx ty a')
     }"

definition ProcessGlobalGet ::
  "'t Graph \<Rightarrow> 't TypeOracle \<Rightarrow> OpIndex \<Rightarrow> 't \<Rightarrow> 't WasmGCTypeAnalyzer \<Rightarrow>
   't WasmGCTypeAnalyzer option" where
  "ProcessGlobalGet g ora op_idx global_type a = Refine g ora op_idx global_type a"

definition ProcessRefFunc ::
  "'t Graph \<Rightarrow> 't TypeOracle \<Rightarrow> OpIndex \<Rightarrow> nat \<Rightarrow> 't WasmGCTypeAnalyzer \<Rightarrow>
   't WasmGCTypeAnalyzer option" where
  "ProcessRefFunc g ora op_idx function_index a =
     Refine g ora op_idx (ValueType_Ref ora (sig_index ora function_index)) a"

text \<open>\<^verbatim>\<open>Cast<RttCanonOp>()\<close> asserts the opcode of the operation.\<close>

definition rtt_type_index :: "'t Graph \<Rightarrow> OpIndex \<Rightarrow> nat option" where
  "rtt_type_index g rtt = (case Get g rtt of RttCanon type_index \<Rightarrow> Some type_index | _ \<Rightarrow> None)"

definition ProcessAllocateArray ::
  "'t Graph \<Rightarrow> 't TypeOracle \<Rightarrow> OpIndex \<Rightarrow> OpIndex \<Rightarrow> 't WasmGCTypeAnalyzer \<Rightarrow>
   't WasmGCTypeAnalyzer option" where
  "ProcessAllocateArray g ora op_idx rtt a =
     do {
       type_index \<leftarrow> rtt_type_index g rtt;
       Refine g ora op_idx (ValueType_Ref ora type_index) a
     }"

definition ProcessAllocateStruct ::
  "'t Graph \<Rightarrow> 't TypeOracle \<Rightarrow> OpIndex \<Rightarrow> OpIndex \<Rightarrow> 't WasmGCTypeAnalyzer \<Rightarrow>
   't WasmGCTypeAnalyzer option" where
  "ProcessAllocateStruct g ora op_idx rtt a =
     do {
       type_index \<leftarrow> rtt_type_index g rtt;
       Refine g ora op_idx (ValueType_Ref ora type_index) a
     }"

text \<open>
  The \<^verbatim>\<open>for\<close> loop of \<^verbatim>\<open>ProcessPhi\<close> over the inputs from index \<open>i\<close> on. The
  inner option is \<open>None\<close> when the loop leaves the function by \<^verbatim>\<open>return\<close>, and
  the final \<^verbatim>\<open>union_type\<close> otherwise.
\<close>

fun ProcessPhi_loop ::
  "'t Graph \<Rightarrow> 't TypeOracle \<Rightarrow> 't TypeSnapshotTable \<Rightarrow> OpIndex list \<Rightarrow> nat \<Rightarrow> 't \<Rightarrow>
   't option option" where
  "ProcessPhi_loop g ora tbl [] i union_type = Some (Some union_type)"
| "ProcessPhi_loop g ora tbl (inp # inputs) i union_type =
     do {
       r \<leftarrow> ResolveAliases g inp;
       input_type \<leftarrow> GetPredecessorValue ora tbl r i;
       if input_type = Void ora then Some None
       else if input_type = kWasmBottom ora
         then ProcessPhi_loop g ora tbl inputs (i + 1) union_type
       else if union_type = kWasmBottom ora
         then ProcessPhi_loop g ora tbl inputs (i + 1) input_type
       else ProcessPhi_loop g ora tbl inputs (i + 1) (wasm_Union ora union_type input_type)
     }"

definition ProcessPhi ::
  "'t Graph \<Rightarrow> 't TypeOracle \<Rightarrow> OpIndex \<Rightarrow> OpIndex list \<Rightarrow> 't WasmGCTypeAnalyzer \<Rightarrow>
   't WasmGCTypeAnalyzer option" where
  "ProcessPhi g ora op_idx inputs a =
     do {
       DCHECK (length inputs > 0);
       if is_first_loop_header_evaluation a then
         do {
           ty \<leftarrow> GetResolvedType g ora a (hd inputs);
           Refine g ora op_idx ty a
         }
       else
         do {
           r \<leftarrow> ResolveAliases g (hd inputs);
           union_type \<leftarrow> GetPredecessorValue ora (types_table a) r 0;
           if union_type = Void ora then Some a
           else
             do {
               res \<leftarrow> ProcessPhi_loop g ora (types_table a) (tl inputs) 1 union_type;
               case res of
                 None \<Rightarrow> Some a
               | Some union_type \<Rightarrow> Refine g ora op_idx union_type a
             }
         }
     }"

definition ProcessTypeAnnotation ::
  "'t Graph \<Rightarrow> 't TypeOracle \<Rightarrow> OpIndex \<Rightarrow> 't \<Rightarrow> 't WasmGCTypeAnalyzer \<Rightarrow>
   't WasmGCTypeAnalyzer option" where
  "ProcessTypeAnnotation g ora val ty a = Refine g ora val ty a"

definition ProcessNull ::
  "'t Graph \<Rightarrow> 't TypeOracle \<Rightarrow> OpIndex \<Rightarrow> 't \<Rightarrow> 't WasmGCTypeAnalyzer \<Rightarrow>
   't WasmGCTypeAnalyzer option" where
  "ProcessNull g ora op_idx ty a =
     do {
       let null_type = ToNullSentinel ora ty;
       Refine g ora op_idx null_type a
     }"

definition mark_unreachable ::
  "BlockIndex \<Rightarrow> 't WasmGCTypeAnalyzer \<Rightarrow> 't WasmGCTypeAnalyzer" where
  "mark_unreachable b a = a\<lparr>block_is_unreachable := insert b (block_is_unreachable a)\<rparr>"

text \<open>
  \<^verbatim>\<open>ProcessBranchOnTarget\<close>: the branch is given by its condition and its two targets.
\<close>

definition ProcessBranchOnTarget ::
  "'t Graph \<Rightarrow> 't TypeOracle \<Rightarrow> OpIndex \<Rightarrow> BlockIndex \<Rightarrow> BlockIndex \<Rightarrow> BlockIndex \<Rightarrow>
   't WasmGCTypeAnalyzer \<Rightarrow> 't WasmGCTypeAnalyzer option" where
  "ProcessBranchOnTarget g ora condition if_true if_false target a =
     do {
       DCHECK (current_block a = Some target);
       case Get g condition of
         WasmTypeCheck object to \<Rightarrow>
           if if_true = target then Refine g ora object to a
           else
             do {
               DCHECK (if_false = target);
               ty \<leftarrow> GetResolvedType g ora a object;
               if IsSubtypeOf ora ty to then
                 do {
                   DCHECK (length (Predecessors (GetBlock g target)) = 1);
                   Some (mark_unreachable target a)
                 }
               else Some a
             }
       | IsNull object is_null_type \<Rightarrow>
           if if_true = target then
             do {
               ty \<leftarrow> GetResolvedType g ora a object;
               if is_non_nullable ora ty then
                 do {
                   DCHECK (length (Predecessors (GetBlock g target)) = 1);
                   Some (mark_unreachable target a)
                 }
               else Refine g ora object (ToNullSentinel ora is_null_type) a
             }
           else
             do {
               DCHECK (if_false = target);
               Refine g ora object (AsNonNull ora is_null_type) a
             }
       | _ \<Rightarrow> Some a
     }"

subsection \<open>Merging snapshots\<close>

text \<open>
  The first loop of the merge function: the first predecessor that is reachable and
  whose type is not bottom gives \<^verbatim>\<open>first\<close>; the loop returns it with the predecessors
  after it. The lists pair \<^verbatim>\<open>reachable[i]\<close> with \<^verbatim>\<open>predecessors[i]\<close>.
\<close>

fun merge_first :: "'t TypeOracle \<Rightarrow> (bool \<times> 't) list \<Rightarrow> 't \<times> (bool \<times> 't) list" where
  "merge_first ora [] = (kWasmBottom ora, [])"
| "merge_first ora ((r, p) # rest) =
     (if r \<and> p \<noteq> kWasmBottom ora then (p, rest) else merge_first ora rest)"

text \<open>
  The second loop, over the remaining predecessors, carrying \<^verbatim>\<open>res\<close> and the captured
  \<^verbatim>\<open>types_are_equivalent\<close>.
\<close>

fun merge_rest ::
  "'t TypeOracle \<Rightarrow> 't \<Rightarrow> (bool \<times> 't) list \<Rightarrow> 't \<Rightarrow> bool \<Rightarrow> 't \<times> bool" where
  "merge_rest ora first [] res types_are_equivalent = (res, types_are_equivalent)"
| "merge_rest ora first ((r, ty) # rest) res types_are_equivalent =
     (if \<not> r then merge_rest ora first rest res types_are_equivalent
      else if ty = kWasmBottom ora then merge_rest ora first rest res types_are_equivalent
      else merge_rest ora first rest
             (if res = Void ora \<or> ty = Void ora then Void ora else wasm_Union ora res ty)
             (types_are_equivalent \<and> first = ty))"

text \<open>
  The lambda passed to \<^verbatim>\<open>StartNewSnapshot\<close>, with the captured
  \<^verbatim>\<open>types_are_equivalent\<close> as its state. Both loops run over the indices of
  \<^verbatim>\<open>reachable\<close> and read \<^verbatim>\<open>predecessors\<close> at the same index; the two have the same
  length when \<^verbatim>\<open>CreateMergeSnapshot\<close> has passed its \<^verbatim>\<open>DCHECK_EQ\<close>.
\<close>

definition merge_lambda ::
  "'t TypeOracle \<Rightarrow> bool list \<Rightarrow> OpIndex \<Rightarrow> 't list \<Rightarrow> bool \<Rightarrow> ('t \<times> bool) option" where
  "merge_lambda ora reachable key predecessors types_are_equivalent =
     do {
       DCHECK (length predecessors > 1);
       let (first, rest) = merge_first ora (zip reachable predecessors);
       Some (merge_rest ora first rest first types_are_equivalent)
     }"

definition CreateMergeSnapshot ::
  "'t TypeOracle \<Rightarrow> 't Snapshot list \<Rightarrow> bool list \<Rightarrow> 't WasmGCTypeAnalyzer \<Rightarrow>
   (bool \<times> 't WasmGCTypeAnalyzer) option" where
  "CreateMergeSnapshot ora predecessors reachable a =
     do {
       DCHECK (length predecessors = length reachable);
       (tbl, types_are_equivalent) \<leftarrow>
         StartNewSnapshot_merge ora predecessors (merge_lambda ora reachable) True
           (types_table a);
       Some (\<not> types_are_equivalent, a\<lparr>types_table := tbl\<rparr>)
     }"

text \<open>
  \<^verbatim>\<open>CreateMergeSnapshot(const Block&)\<close>: the snapshots and the reachability of the
  predecessors are collected from the last predecessor to the first, then reversed.
\<close>

definition CreateMergeSnapshot_block ::
  "'t Graph \<Rightarrow> 't TypeOracle \<Rightarrow> BlockIndex \<Rightarrow> 't WasmGCTypeAnalyzer \<Rightarrow>
   't WasmGCTypeAnalyzer option" where
  "CreateMergeSnapshot_block g ora block a =
     do {
       snapshots \<leftarrow> those (map (block_to_snapshot a) (PredecessorsIterable (GetBlock g block)));
       let reachable = map (IsReachable a) (PredecessorsIterable (GetBlock g block));
       map_option snd (CreateMergeSnapshot ora (rev snapshots) (rev reachable) a)
     }"

subsection \<open>Processing a block\<close>

definition StartNewSnapshotFor ::
  "'t Graph \<Rightarrow> 't TypeOracle \<Rightarrow> BlockIndex \<Rightarrow> 't WasmGCTypeAnalyzer \<Rightarrow>
   't WasmGCTypeAnalyzer option" where
  "StartNewSnapshotFor g ora block a0 =
     (let a = a0\<lparr>is_first_loop_header_evaluation := False,
                 block_is_unreachable := block_is_unreachable a0 - {block}\<rparr>;
          b = GetBlock g block
      in
        if \<not> HasPredecessors b then
          do {
            DCHECK (block = 0);
            Some (a\<lparr>types_table := StartNewSnapshot (types_table a)\<rparr>)
          }
        else if IsLoop b then
          do {
            last_predecessor \<leftarrow> LastPredecessor b;
            case block_to_snapshot a last_predecessor of
              Some back_edge_snap \<Rightarrow> CreateMergeSnapshot_block g ora block a
            | None \<Rightarrow>
                do {
                  forward_edge \<leftarrow> NeighboringOfLastPredecessor b;
                  forward_edge_snap \<leftarrow> block_to_snapshot a forward_edge;
                  Some (a\<lparr>is_first_loop_header_evaluation := True,
                          types_table := StartNewSnapshot_from forward_edge_snap (types_table a)\<rparr>)
                }
          }
        else if IsBranchTarget b then
          do {
            DCHECK (length (Predecessors b) = 1);
            last_predecessor \<leftarrow> LastPredecessor b;
            snap \<leftarrow> block_to_snapshot a last_predecessor;
            let a1 = a\<lparr>types_table := StartNewSnapshot_from snap (types_table a)\<rparr>;
            last_op \<leftarrow> LastOperation g (GetBlock g (hd (Predecessors b)));
            case last_op of
              Branch condition if_true if_false \<Rightarrow>
                ProcessBranchOnTarget g ora condition if_true if_false block a1
            | _ \<Rightarrow> Some a1
          }
        else
          do {
            DCHECK (kind b = kMerge);
            CreateMergeSnapshot_block g ora block a
          })"

definition ProcessOperation ::
  "'t Graph \<Rightarrow> 't TypeOracle \<Rightarrow> OpIndex \<Rightarrow> 't WasmGCTypeAnalyzer \<Rightarrow>
   't WasmGCTypeAnalyzer option" where
  "ProcessOperation g ora op_idx a =
     (case Get g op_idx of
        WasmTypeCast object to \<Rightarrow> ProcessTypeCast g ora op_idx object to a
      | WasmTypeCheck object to \<Rightarrow> ProcessTypeCheck g ora op_idx object a
      | AssertNotNull object ty \<Rightarrow> ProcessAssertNotNull g ora op_idx object ty a
      | Null ty \<Rightarrow> ProcessNull g ora op_idx ty a
      | IsNull object ty \<Rightarrow> ProcessIsNull g ora op_idx object a
      | Parameter parameter_index \<Rightarrow> ProcessParameter g ora op_idx parameter_index a
      | StructGet object field_types field_index \<Rightarrow>
          ProcessStructGet g ora op_idx object field_types field_index a
      | StructSet object \<Rightarrow> ProcessStructSet g ora op_idx object a
      | ArrayLength array \<Rightarrow> ProcessArrayLength g ora op_idx array a
      | GlobalGet ty \<Rightarrow> ProcessGlobalGet g ora op_idx ty a
      | WasmRefFunc function_index \<Rightarrow> ProcessRefFunc g ora op_idx function_index a
      | WasmAllocateArray rtt \<Rightarrow> ProcessAllocateArray g ora op_idx rtt a
      | WasmAllocateStruct rtt \<Rightarrow> ProcessAllocateStruct g ora op_idx rtt a
      | Phi inputs \<Rightarrow> ProcessPhi g ora op_idx inputs a
      | WasmTypeAnnotation val ty \<Rightarrow> ProcessTypeAnnotation g ora val ty a
      | _ \<Rightarrow> Some a)"

fun ProcessOperations_loop ::
  "'t Graph \<Rightarrow> 't TypeOracle \<Rightarrow> OpIndex list \<Rightarrow> 't WasmGCTypeAnalyzer \<Rightarrow>
   't WasmGCTypeAnalyzer option" where
  "ProcessOperations_loop g ora [] a = Some a"
| "ProcessOperations_loop g ora (op_idx # rest) a =
     (case ProcessOperation g ora op_idx a of
        None \<Rightarrow> None
      | Some a' \<Rightarrow> ProcessOperations_loop g ora rest a')"

definition ProcessOperations ::
  "'t Graph \<Rightarrow> 't TypeOracle \<Rightarrow> BlockIndex \<Rightarrow> 't WasmGCTypeAnalyzer \<Rightarrow>
   't WasmGCTypeAnalyzer option" where
  "ProcessOperations g ora block a =
     ProcessOperations_loop g ora (OperationIndices (GetBlock g block)) a"

definition ProcessBlock ::
  "'t Graph \<Rightarrow> 't TypeOracle \<Rightarrow> BlockIndex \<Rightarrow> 't WasmGCTypeAnalyzer \<Rightarrow>
   't WasmGCTypeAnalyzer option" where
  "ProcessBlock g ora block a =
     do {
       DCHECK (current_block a = None);
       a1 \<leftarrow> StartNewSnapshotFor g ora block (a\<lparr>current_block := Some block\<rparr>);
       a2 \<leftarrow> ProcessOperations g ora block a1;
       Some (a2\<lparr>current_block := None\<rparr>)
     }"

subsection \<open>The driver\<close>

text \<open>
  \<^verbatim>\<open>AnalyzerIterator\<close> is declared in analyzer-iterator.h, which is not among the
  sources, so the iterator is a parameter: a state \<open>'it\<close> with the three member
  functions \<^verbatim>\<open>Run\<close> calls.
\<close>

record 'it AnalyzerIterator =
  HasNext :: "'it \<Rightarrow> bool"
  Next :: "'it \<Rightarrow> BlockIndex \<times> 'it"
  MarkLoopForRevisitSkipHeader :: "'it \<Rightarrow> 'it"

text \<open>The first statements of the loop body: process the block, seal, record the snapshot.\<close>

definition Run_process ::
  "'t Graph \<Rightarrow> 't TypeOracle \<Rightarrow> BlockIndex \<Rightarrow> 't WasmGCTypeAnalyzer \<Rightarrow>
   't WasmGCTypeAnalyzer option" where
  "Run_process g ora block a =
     do {
       a1 \<leftarrow> ProcessBlock g ora block a;
       (snapshot, tbl) \<leftarrow> table_Seal (types_table a1);
       Some (a1\<lparr>types_table := tbl,
                block_to_snapshot := (block_to_snapshot a1)(block := Some snapshot)\<rparr>)
     }"

text \<open>The condition under which the loop header is processed again.\<close>

definition revisit_condition ::
  "'t Graph \<Rightarrow> BlockIndex \<Rightarrow> BlockIndex \<Rightarrow> 't WasmGCTypeAnalyzer \<Rightarrow> bool" where
  "revisit_condition g block destination a =
     (IsReachable a block \<and> IsLoop (GetBlock g destination) \<and>
      LastPredecessor (GetBlock g destination) = Some block)"

text \<open>The body of the inner \<^verbatim>\<open>if\<close>: re-process the header and compare the snapshots.\<close>

definition Run_revisit ::
  "'t Graph \<Rightarrow> 't TypeOracle \<Rightarrow> 'it AnalyzerIterator \<Rightarrow> BlockIndex \<Rightarrow>
   'it \<times> 't WasmGCTypeAnalyzer \<Rightarrow> ('it \<times> 't WasmGCTypeAnalyzer) option" where
  "Run_revisit g ora itr loop_header st =
     (case st of (iterator, a) \<Rightarrow>
        do {
          a1 \<leftarrow> ProcessBlock g ora loop_header a;
          old_snapshot \<leftarrow> block_to_snapshot a1 loop_header;
          (snapshot, tbl1) \<leftarrow> table_Seal (types_table a1);
          (needs_revisit, a2) \<leftarrow>
            CreateMergeSnapshot ora [old_snapshot, snapshot] [True, True]
              (a1\<lparr>types_table := tbl1\<rparr>);
          (discarded, tbl2) \<leftarrow> table_Seal (types_table a2);
          let a3 = a2\<lparr>types_table := tbl2\<rparr>;
          if needs_revisit
          then Some (MarkLoopForRevisitSkipHeader itr iterator,
                     a3\<lparr>block_to_snapshot := (block_to_snapshot a3)(loop_header := Some snapshot)\<rparr>)
          else Some (iterator, a3)
        })"

text \<open>One iteration of the \<^verbatim>\<open>while\<close> loop of \<^verbatim>\<open>Run\<close>, for the block the iterator gave.\<close>

definition Run_iteration ::
  "'t Graph \<Rightarrow> 't TypeOracle \<Rightarrow> 'it AnalyzerIterator \<Rightarrow> BlockIndex \<Rightarrow>
   'it \<times> 't WasmGCTypeAnalyzer \<Rightarrow> ('it \<times> 't WasmGCTypeAnalyzer) option" where
  "Run_iteration g ora itr block st =
     (case st of (iterator, a) \<Rightarrow>
        do {
          a1 \<leftarrow> Run_process g ora block a;
          last_op \<leftarrow> LastOperation g (GetBlock g block);
          case last_op of
            Goto destination \<Rightarrow>
              if revisit_condition g block destination a1
              then Run_revisit g ora itr destination (iterator, a1)
              else Some (iterator, a1)
          | _ \<Rightarrow> Some (iterator, a1)
        })"

partial_function (option) Run_loop ::
  "'t Graph \<Rightarrow> 't TypeOracle \<Rightarrow> 'it AnalyzerIterator \<Rightarrow> 'it \<times> 't WasmGCTypeAnalyzer \<Rightarrow>
   ('it \<times> 't WasmGCTypeAnalyzer) option" where
  "Run_loop g ora itr st =
     (if HasNext itr (fst st)
      then (case Next itr (fst st) of (block, iterator) \<Rightarrow>
              Option.bind (Run_iteration g ora itr block (iterator, snd st))
                (Run_loop g ora itr))
      else Some st)"

text \<open>The analyzer before \<^verbatim>\<open>Run\<close>: no snapshots, no unreachable blocks, an empty table.\<close>

definition initial_analyzer :: "'t WasmGCTypeAnalyzer" where
  "initial_analyzer =
     \<lparr>types_table = \<lparr>active = None, started_from = []\<rparr>,
      block_to_snapshot = (\<lambda>b. None),
      block_is_unreachable = {},
      input_type_map = (\<lambda>i. None),
      current_block = None,
      is_first_loop_header_evaluation = False\<rparr>"

definition Run ::
  "'t Graph \<Rightarrow> 't TypeOracle \<Rightarrow> 'it AnalyzerIterator \<Rightarrow> 'it \<Rightarrow>
   ('it \<times> 't WasmGCTypeAnalyzer) option" where
  "Run g ora itr iterator = Run_loop g ora itr (iterator, initial_analyzer)"

declare ResolveAliases.simps [code]

declare Run_loop.simps [code]

section \<open>Notions used in the statements\<close>

subsection \<open>Alias chains\<close>

text \<open>
  The pass-through kinds are the cast, the non-null assertion and the type annotation;
  \<open>alias_object\<close> is the single object operand of such an operation.
  \<open>alias_chain g v r\<close> holds when following the object operands of pass-through
  operations from \<open>v\<close> reaches, after finitely many steps, the value \<open>r\<close>, the first
  one whose operation is not pass-through.
\<close>

fun alias_object :: "'t Operation \<Rightarrow> OpIndex option" where
  "alias_object (WasmTypeCast object to) = Some object"
| "alias_object (AssertNotNull object ty) = Some object"
| "alias_object (WasmTypeAnnotation val ty) = Some val"
| "alias_object _ = None"

inductive alias_chain :: "'t Graph \<Rightarrow> OpIndex \<Rightarrow> OpIndex \<Rightarrow> bool" for g where
  chain_end: "alias_object (Get g v) = None \<Longrightarrow> alias_chain g v v"
| chain_step: "alias_object (Get g v) = Some w \<Longrightarrow> alias_chain g w r \<Longrightarrow> alias_chain g v r"

subsection \<open>Merged types\<close>

text \<open>
  For one key: \<open>predecessor_values\<close> are the types of the key in the predecessor
  snapshots; \<open>contributing\<close> are those of the reachable predecessors that are not
  bottom, in order; \<open>merged_type\<close> combines them from the left with \<open>merge_step\<close>,
  which is the union unless one side is the default type; \<open>types_differ\<close> says that
  the contributing types are not all the same.
\<close>

definition contributing :: "'t TypeOracle \<Rightarrow> bool list \<Rightarrow> 't list \<Rightarrow> 't list" where
  "contributing ora reachable tys =
     map snd (filter (\<lambda>(r, ty). r \<and> ty \<noteq> kWasmBottom ora) (zip reachable tys))"

definition merge_step :: "'t TypeOracle \<Rightarrow> 't \<Rightarrow> 't \<Rightarrow> 't" where
  "merge_step ora res ty =
     (if res = Void ora \<or> ty = Void ora then Void ora else wasm_Union ora res ty)"

definition merged_type :: "'t TypeOracle \<Rightarrow> 't list \<Rightarrow> 't" where
  "merged_type ora tys =
     (case tys of [] \<Rightarrow> kWasmBottom ora | ty # rest \<Rightarrow> foldl (merge_step ora) ty rest)"

definition predecessor_values :: "'t TypeOracle \<Rightarrow> 't Snapshot list \<Rightarrow> OpIndex \<Rightarrow> 't list" where
  "predecessor_values ora predecessors k = map (\<lambda>s. snapshot_value ora s k) predecessors"

definition types_differ :: "'t TypeOracle \<Rightarrow> bool list \<Rightarrow> 't Snapshot list \<Rightarrow> OpIndex \<Rightarrow> bool" where
  "types_differ ora reachable predecessors k =
     (\<exists>ty \<in> set (contributing ora reachable (predecessor_values ora predecessors k)).
        ty \<noteq> hd (contributing ora reachable (predecessor_values ora predecessors k)))"

text \<open>The same combination over an optional accumulator, empty before the first type.\<close>

definition merge_option_step :: "'t TypeOracle \<Rightarrow> 't \<Rightarrow> 't option \<Rightarrow> 't option" where
  "merge_option_step ora ty acc =
     (case acc of None \<Rightarrow> Some ty | Some res \<Rightarrow> Some (merge_step ora res ty))"

text \<open>
  The laws of the union the spec asks of the type oracle (commutativity, associativity),
  and that the union of two types is a type, not the default value.
\<close>

definition union_laws :: "'t TypeOracle \<Rightarrow> bool" where
  "union_laws ora =
     ((\<forall>a b. wasm_Union ora a b = wasm_Union ora b a) \<and>
      (\<forall>a b c. wasm_Union ora (wasm_Union ora a b) c = wasm_Union ora a (wasm_Union ora b c)) \<and>
      (\<forall>a b. a \<noteq> Void ora \<and> b \<noteq> Void ora \<longrightarrow> wasm_Union ora a b \<noteq> Void ora))"

subsection \<open>The phi rule\<close>

text \<open>
  \<open>contributed_types\<close>: the types the predecessors contribute to the inputs of a phi,
  input \<open>i\<close> resolved and read in predecessor \<open>i\<close>. \<open>phi_accumulate\<close> skips bottom
  inputs, replaces a bottom accumulator by the input and takes the union otherwise;
  \<open>phi_union_only\<close> is the rule in the words of the spec: skip bottom inputs,
  accumulate the others by union.
\<close>

fun contributed_types ::
  "'t Graph \<Rightarrow> 't TypeOracle \<Rightarrow> 't TypeSnapshotTable \<Rightarrow> OpIndex list \<Rightarrow> nat \<Rightarrow> 't list option" where
  "contributed_types g ora tbl [] i = Some []"
| "contributed_types g ora tbl (inp # inputs) i =
     do {
       r \<leftarrow> ResolveAliases g inp;
       ty \<leftarrow> GetPredecessorValue ora tbl r i;
       tys \<leftarrow> contributed_types g ora tbl inputs (i + 1);
       Some (ty # tys)
     }"

fun phi_accumulate :: "'t TypeOracle \<Rightarrow> 't \<Rightarrow> 't list \<Rightarrow> 't" where
  "phi_accumulate ora acc [] = acc"
| "phi_accumulate ora acc (ty # tys) =
     (if ty = kWasmBottom ora then phi_accumulate ora acc tys
      else if acc = kWasmBottom ora then phi_accumulate ora ty tys
      else phi_accumulate ora (wasm_Union ora acc ty) tys)"

fun phi_union_only :: "'t TypeOracle \<Rightarrow> 't \<Rightarrow> 't list \<Rightarrow> 't" where
  "phi_union_only ora acc [] = acc"
| "phi_union_only ora acc (ty # tys) =
     (if ty = kWasmBottom ora then phi_union_only ora acc tys
      else phi_union_only ora (wasm_Union ora acc ty) tys)"

text \<open>
  Two merges of the same predecessors, one after the other, each sealed: the boolean
  and the snapshot of each.
\<close>

definition merge_twice ::
  "'t TypeOracle \<Rightarrow> 't Snapshot list \<Rightarrow> bool list \<Rightarrow> 't WasmGCTypeAnalyzer \<Rightarrow>
   (bool \<times> 't Snapshot \<times> bool \<times> 't Snapshot) option" where
  "merge_twice ora predecessors reachable a =
     do {
       (changed1, a1) \<leftarrow> CreateMergeSnapshot ora predecessors reachable a;
       (merged1, tbl1) \<leftarrow> table_Seal (types_table a1);
       (changed2, a2) \<leftarrow> CreateMergeSnapshot ora predecessors reachable (a1\<lparr>types_table := tbl1\<rparr>);
       (merged2, tbl2) \<leftarrow> table_Seal (types_table a2);
       Some (changed1, merged1, changed2, merged2)
     }"

text \<open>The type known for \<open>k\<close> in the table of a result.\<close>

definition type_after ::
  "'t TypeOracle \<Rightarrow> OpIndex \<Rightarrow> 't WasmGCTypeAnalyzer option \<Rightarrow> 't option" where
  "type_after ora k result = Option.bind result (\<lambda>a. table_Get ora (types_table a) k)"

subsection \<open>The loop protocol and branch targets\<close>

text \<open>
  \<open>snapshots_differ\<close>: for some key of the two snapshots, both have a type that is not
  bottom and the two types are different. \<open>branch_target_start\<close>: the analyzer as
  \<^verbatim>\<open>StartNewSnapshotFor\<close> has it when it calls \<^verbatim>\<open>ProcessBranchOnTarget\<close>, the flags
  reset and the snapshot started from the predecessor's.
\<close>

definition snapshots_differ :: "'t TypeOracle \<Rightarrow> 't Snapshot \<Rightarrow> 't Snapshot \<Rightarrow> bool" where
  "snapshots_differ ora old_snapshot snapshot =
     (\<exists>k \<in> set (merge_keys [old_snapshot, snapshot]).
        snapshot_value ora old_snapshot k \<noteq> kWasmBottom ora \<and>
        snapshot_value ora snapshot k \<noteq> kWasmBottom ora \<and>
        snapshot_value ora old_snapshot k \<noteq> snapshot_value ora snapshot k)"

definition branch_target_start ::
  "BlockIndex \<Rightarrow> 't Snapshot \<Rightarrow> 't WasmGCTypeAnalyzer \<Rightarrow> 't WasmGCTypeAnalyzer" where
  "branch_target_start block snap a =
     a\<lparr>is_first_loop_header_evaluation := False,
       block_is_unreachable := block_is_unreachable a - {block},
       types_table := StartNewSnapshot_from snap (types_table a)\<rparr>"

subsection \<open>An example type hierarchy, graph and analyzer state\<close>

text \<open>
  An instance of the type oracle, for evaluating the analysis on concrete inputs:
  reference types \<open>T_ref nullable h\<close> over a chain of heap types \<open>0 < 1 < 2 < ...\<close>, where
  \<open>0\<close> is the empty heap type (so \<open>T_ref True 0\<close> is the null sentinel and
  \<open>T_ref False 0\<close> is uninhabited), \<open>T_void\<close> is the default value type and \<open>T_bottom\<close>
  the bottom type. The union of two types that are not both references is the type
  itself when they are equal and bottom otherwise; so is their intersection, except
  that \<open>T_void\<close> is neutral for the intersection.
\<close>

datatype ExampleType = T_void | T_bottom | T_ref bool nat

fun example_Union :: "ExampleType \<Rightarrow> ExampleType \<Rightarrow> ExampleType" where
  "example_Union (T_ref n1 h1) (T_ref n2 h2) = T_ref (n1 \<or> n2) (max h1 h2)"
| "example_Union t1 t2 = (if t1 = t2 then t1 else T_bottom)"

fun example_Intersection :: "ExampleType \<Rightarrow> ExampleType \<Rightarrow> ExampleType" where
  "example_Intersection T_void t2 = t2"
| "example_Intersection t1 T_void = t1"
| "example_Intersection (T_ref n1 h1) (T_ref n2 h2) = T_ref (n1 \<and> n2) (min h1 h2)"
| "example_Intersection t1 t2 = (if t1 = t2 then t1 else T_bottom)"

fun example_IsSubtypeOf :: "ExampleType \<Rightarrow> ExampleType \<Rightarrow> bool" where
  "example_IsSubtypeOf (T_ref n1 h1) (T_ref n2 h2) = ((n1 \<longrightarrow> n2) \<and> h1 \<le> h2)"
| "example_IsSubtypeOf t1 t2 = (t1 = t2)"

fun example_AsNonNull :: "ExampleType \<Rightarrow> ExampleType" where
  "example_AsNonNull (T_ref n h) = T_ref False h"
| "example_AsNonNull t = t"

fun example_is_uninhabited :: "ExampleType \<Rightarrow> bool" where
  "example_is_uninhabited T_bottom = True"
| "example_is_uninhabited (T_ref n h) = (\<not> n \<and> h = 0)"
| "example_is_uninhabited T_void = False"

fun example_is_non_nullable :: "ExampleType \<Rightarrow> bool" where
  "example_is_non_nullable (T_ref n h) = (\<not> n)"
| "example_is_non_nullable t = False"

fun example_ToNullSentinel :: "ExampleType \<Rightarrow> ExampleType" where
  "example_ToNullSentinel t = T_ref True 0"

definition example_GetParam :: "int \<Rightarrow> ExampleType" where
  "example_GetParam i = (if i = 0 then T_ref False 2 else T_ref True 2)"

definition example_oracle :: "ExampleType TypeOracle" where
  "example_oracle =
     \<lparr>Void = T_void, kWasmBottom = T_bottom,
      wasm_Union = example_Union, wasm_Intersection = example_Intersection,
      IsSubtypeOf = example_IsSubtypeOf, AsNonNull = example_AsNonNull,
      is_uninhabited = example_is_uninhabited, is_non_nullable = example_is_non_nullable,
      ToNullSentinel = example_ToNullSentinel,
      ValueType_Ref = (\<lambda>i. T_ref False (Suc i)),
      sig_index = (\<lambda>i. i),
      GetParam = example_GetParam,
      kWasmInstanceParameterIndex = 0\<rparr>"

text \<open>
  A graph with one block (index 0, no predecessors): 0 is a parameter, 1 a cast of 0,
  2 a type annotation of 1, 3 a struct.get on 2 with field type \<open>T_ref True 3\<close>, 4 a
  struct.set on 2 and 5 a phi of 0 and 3.
\<close>

definition example_Get :: "OpIndex \<Rightarrow> ExampleType Operation" where
  "example_Get i =
     (if i = 0 then Parameter 1
      else if i = 1 then WasmTypeCast 0 (T_ref True 2)
      else if i = 2 then WasmTypeAnnotation 1 (T_ref True 2)
      else if i = 3 then StructGet 2 [T_ref True 3] 0
      else if i = 4 then StructSet 2
      else if i = 5 then Phi [0, 3]
      else Other)"

definition example_graph :: "ExampleType Graph" where
  "example_graph =
     \<lparr>Get = example_Get,
      GetBlock = (\<lambda>b. \<lparr>kind = kMerge, Predecessors = [], OperationIndices = [0, 1, 2, 3, 4, 5]\<rparr>)\<rparr>"

text \<open>The analyzer while it processes block 0, with the active snapshot \<open>s\<close>.\<close>

definition example_analyzer :: "'t Snapshot \<Rightarrow> 't WasmGCTypeAnalyzer" where
  "example_analyzer s =
     initial_analyzer\<lparr>types_table := \<lparr>active = Some s, started_from = []\<rparr>,
                      current_block := Some 0\<rparr>"

text \<open>The same with the snapshots the active one was started from.\<close>

definition example_analyzer_from :: "'t Snapshot list \<Rightarrow> 't Snapshot \<Rightarrow> 't WasmGCTypeAnalyzer" where
  "example_analyzer_from predecessors s =
     initial_analyzer\<lparr>types_table := \<lparr>active = Some s, started_from = predecessors\<rparr>,
                      current_block := Some 0\<rparr>"

text \<open>
  A loop: block 0 is the entry (a parameter of type \<open>T_ref False 2\<close>), block 1 the
  loop header with a phi of the parameter and of a value of the body, block 2 the body
  (a global of type \<open>T_ref True 1\<close> and the back edge), block 3 the exit. The header
  branches on a type check of the phi: the body is the true target.
\<close>

definition loop_Get :: "OpIndex \<Rightarrow> ExampleType Operation" where
  "loop_Get i =
     (if i = 0 then Parameter 1
      else if i = 1 then Goto 1
      else if i = 2 then Phi [0, 5]
      else if i = 3 then WasmTypeCheck 2 (T_ref True 1)
      else if i = 4 then Branch 3 2 3
      else if i = 5 then GlobalGet (T_ref True 1)
      else if i = 6 then Goto 1
      else Other)"

definition loop_Block :: "BlockIndex \<Rightarrow> Block" where
  "loop_Block b =
     (if b = 0 then \<lparr>kind = kMerge, Predecessors = [], OperationIndices = [0, 1]\<rparr>
      else if b = 1 then \<lparr>kind = kLoopHeader, Predecessors = [0, 2], OperationIndices = [2, 3, 4]\<rparr>
      else if b = 2 then \<lparr>kind = kBranchTarget, Predecessors = [1], OperationIndices = [5, 6]\<rparr>
      else \<lparr>kind = kBranchTarget, Predecessors = [1], OperationIndices = [7]\<rparr>)"

definition loop_graph :: "ExampleType Graph" where
  "loop_graph = \<lparr>Get = loop_Get, GetBlock = loop_Block\<rparr>"

text \<open>
  An iterator for the examples: the blocks still to visit and the number of revisits
  asked for; a revisit puts the blocks of \<open>body\<close> in front.
\<close>

definition example_iterator :: "BlockIndex list \<Rightarrow> (BlockIndex list \<times> nat) AnalyzerIterator" where
  "example_iterator body =
     \<lparr>HasNext = (\<lambda>it. fst it \<noteq> []),
      Next = (\<lambda>it. (hd (fst it), (tl (fst it), snd it))),
      MarkLoopForRevisitSkipHeader = (\<lambda>it. (body @ fst it, Suc (snd it)))\<rparr>"

text \<open>
  A loop whose forward edge is dead: block 0 branches on an is-null test of a
  non-nullable parameter; block 1, the null target, enters the loop with header 2 and
  body 3 (a global of type \<open>T_ref True 2\<close> and the back edge).
\<close>

definition dead_Get :: "OpIndex \<Rightarrow> ExampleType Operation" where
  "dead_Get i =
     (if i = 0 then Parameter 1
      else if i = 1 then IsNull 0 (T_ref True 2)
      else if i = 2 then Branch 1 1 4
      else if i = 3 then Goto 2
      else if i = 4 then Branch 9 3 5
      else if i = 5 then GlobalGet (T_ref True 2)
      else if i = 6 then Goto 2
      else Other)"

definition dead_Block :: "BlockIndex \<Rightarrow> Block" where
  "dead_Block b =
     (if b = 0 then \<lparr>kind = kMerge, Predecessors = [], OperationIndices = [0, 1, 2]\<rparr>
      else if b = 1 then \<lparr>kind = kBranchTarget, Predecessors = [0], OperationIndices = [3]\<rparr>
      else if b = 2 then \<lparr>kind = kLoopHeader, Predecessors = [1, 3], OperationIndices = [4]\<rparr>
      else if b = 3 then \<lparr>kind = kBranchTarget, Predecessors = [2], OperationIndices = [5, 6]\<rparr>
      else if b = 4 then \<lparr>kind = kBranchTarget, Predecessors = [0], OperationIndices = [7]\<rparr>
      else \<lparr>kind = kBranchTarget, Predecessors = [2], OperationIndices = [8]\<rparr>)"

definition dead_graph :: "ExampleType Graph" where
  "dead_graph = \<lparr>Get = dead_Get, GetBlock = dead_Block\<rparr>"

text \<open>
  The loop of \<open>loop_graph\<close> with an is-null test of the non-nullable parameter as the
  condition of the header: the body is the null target.
\<close>

definition null_loop_Get :: "OpIndex \<Rightarrow> ExampleType Operation" where
  "null_loop_Get i = (if i = 3 then IsNull 0 (T_ref True 2) else loop_Get i)"

definition null_loop_graph :: "ExampleType Graph" where
  "null_loop_graph = \<lparr>Get = null_loop_Get, GetBlock = loop_Block\<rparr>"

text \<open>
  The analyzer after \<^verbatim>\<open>Run\<close> has visited the given blocks in order (revisits are
  counted but add no block).
\<close>

definition analyzer_after ::
  "'t Graph \<Rightarrow> 't TypeOracle \<Rightarrow> BlockIndex list \<Rightarrow> 't WasmGCTypeAnalyzer option" where
  "analyzer_after g ora blocks = map_option snd (Run g ora (example_iterator []) (blocks, 0))"

text \<open>
  The analyzer when it enters \<open>block\<close>, every block having the recorded snapshot \<open>s\<close>.
\<close>

definition example_analyzer_entering ::
  "BlockIndex \<Rightarrow> 't Snapshot \<Rightarrow> 't WasmGCTypeAnalyzer" where
  "example_analyzer_entering block s =
     initial_analyzer\<lparr>block_to_snapshot := (\<lambda>p. Some s), current_block := Some block\<rparr>"

text \<open>
  A loop with a dead forward edge and a phi: value 0 is of an operation the analysis
  does not track, block 0 branches on an is-null test of the non-nullable parameter 1,
  block 1 (the null target) enters the loop, the header 2 has the phi 5 of the values 0
  and 8, and the body 3 casts the phi, reads the global 8 and closes the loop.
\<close>

definition dead_phi_Get :: "OpIndex \<Rightarrow> ExampleType Operation" where
  "dead_phi_Get i =
     (if i = 1 then Parameter 1
      else if i = 2 then IsNull 1 (T_ref True 2)
      else if i = 3 then Branch 2 1 4
      else if i = 4 then Goto 2
      else if i = 5 then Phi [0, 8]
      else if i = 6 then Branch 12 3 5
      else if i = 7 then WasmTypeCast 5 (T_ref True 1)
      else if i = 8 then GlobalGet (T_ref True 2)
      else if i = 9 then Goto 2
      else Other)"

definition dead_phi_Block :: "BlockIndex \<Rightarrow> Block" where
  "dead_phi_Block b =
     (if b = 0 then \<lparr>kind = kMerge, Predecessors = [], OperationIndices = [0, 1, 2, 3]\<rparr>
      else if b = 1 then \<lparr>kind = kBranchTarget, Predecessors = [0], OperationIndices = [4]\<rparr>
      else if b = 2 then \<lparr>kind = kLoopHeader, Predecessors = [1, 3], OperationIndices = [5, 6]\<rparr>
      else if b = 3 then \<lparr>kind = kBranchTarget, Predecessors = [2], OperationIndices = [7, 8, 9]\<rparr>
      else if b = 4 then \<lparr>kind = kBranchTarget, Predecessors = [0], OperationIndices = [10]\<rparr>
      else \<lparr>kind = kBranchTarget, Predecessors = [2], OperationIndices = [11]\<rparr>)"

definition dead_phi_graph :: "ExampleType Graph" where
  "dead_phi_graph = \<lparr>Get = dead_phi_Get, GetBlock = dead_phi_Block\<rparr>"

text \<open>
  The analyzer when \<^verbatim>\<open>Run\<close>, having visited \<open>blocks\<close> and then processed and recorded
  \<open>block\<close>, processes \<open>header\<close> again and has started the header's snapshot.
\<close>

definition analyzer_at_revisit ::
  "'t Graph \<Rightarrow> 't TypeOracle \<Rightarrow> BlockIndex list \<Rightarrow> BlockIndex \<Rightarrow> BlockIndex \<Rightarrow>
   't WasmGCTypeAnalyzer option" where
  "analyzer_at_revisit g ora blocks block header =
     do {
       a \<leftarrow> analyzer_after g ora blocks;
       a1 \<leftarrow> Run_process g ora block a;
       StartNewSnapshotFor g ora header (a1\<lparr>current_block := Some header\<rparr>)
     }"

text \<open>
  A loop with a dead forward edge and a struct field read in its body: value 0 is of
  an operation the analysis does not track, block 0 branches on an is-null test of the
  non-nullable parameter 1, block 1 (the null target) enters the loop with header 2,
  and the body 3 reads a field of declared type \<open>T_ref True 3\<close> of the value 0, casts
  the result of the read to \<open>T_ref True 1\<close>, annotates the value 0 with the nullable
  type \<open>T_ref True 2\<close> and closes the loop.
\<close>

definition dead_read_Get :: "OpIndex \<Rightarrow> ExampleType Operation" where
  "dead_read_Get i =
     (if i = 1 then Parameter 1
      else if i = 2 then IsNull 1 (T_ref True 2)
      else if i = 3 then Branch 2 1 4
      else if i = 4 then Goto 2
      else if i = 5 then Branch 12 3 5
      else if i = 6 then StructGet 0 [T_ref True 3] 0
      else if i = 7 then WasmTypeCast 6 (T_ref True 1)
      else if i = 8 then WasmTypeAnnotation 0 (T_ref True 2)
      else if i = 9 then Goto 2
      else Other)"

definition dead_read_Block :: "BlockIndex \<Rightarrow> Block" where
  "dead_read_Block b =
     (if b = 0 then \<lparr>kind = kMerge, Predecessors = [], OperationIndices = [0, 1, 2, 3]\<rparr>
      else if b = 1 then \<lparr>kind = kBranchTarget, Predecessors = [0], OperationIndices = [4]\<rparr>
      else if b = 2 then \<lparr>kind = kLoopHeader, Predecessors = [1, 3], OperationIndices = [5]\<rparr>
      else if b = 3 then \<lparr>kind = kBranchTarget, Predecessors = [2], OperationIndices = [6, 7, 8, 9]\<rparr>
      else if b = 4 then \<lparr>kind = kBranchTarget, Predecessors = [0], OperationIndices = [10]\<rparr>
      else \<lparr>kind = kBranchTarget, Predecessors = [2], OperationIndices = [11]\<rparr>)"

definition dead_read_graph :: "ExampleType Graph" where
  "dead_read_graph = \<lparr>Get = dead_read_Get, GetBlock = dead_read_Block\<rparr>"

text \<open>
  The analyzer when \<^verbatim>\<open>Run\<close>, having visited \<open>blocks\<close>, processes \<open>block\<close> and has
  started its snapshot: the state in which the first operation of the block is
  processed.
\<close>

definition analyzer_at_block ::
  "'t Graph \<Rightarrow> 't TypeOracle \<Rightarrow> BlockIndex list \<Rightarrow> BlockIndex \<Rightarrow> 't WasmGCTypeAnalyzer option" where
  "analyzer_at_block g ora blocks block =
     do {
       a \<leftarrow> analyzer_after g ora blocks;
       StartNewSnapshotFor g ora block (a\<lparr>current_block := Some block\<rparr>)
     }"

section \<open>Properties\<close>

subsection \<open>Evaluation of the example instances\<close>

lemma example_oracle_simps [simp]:
  "Void example_oracle = T_void"
  "kWasmBottom example_oracle = T_bottom"
  "wasm_Union example_oracle = example_Union"
  "wasm_Intersection example_oracle = example_Intersection"
  "IsSubtypeOf example_oracle = example_IsSubtypeOf"
  "AsNonNull example_oracle = example_AsNonNull"
  "is_uninhabited example_oracle = example_is_uninhabited"
  "is_non_nullable example_oracle = example_is_non_nullable"
  "ToNullSentinel example_oracle = example_ToNullSentinel"
  "ValueType_Ref example_oracle = (\<lambda>i. T_ref False (Suc i))"
  "sig_index example_oracle = (\<lambda>i. i)"
  "GetParam example_oracle = example_GetParam"
  "kWasmInstanceParameterIndex example_oracle = 0"
  by (simp_all add: example_oracle_def)

lemma example_Union_commute: "example_Union a b = example_Union b a"
  by (cases a; cases b; auto)

lemma example_Union_assoc: "example_Union (example_Union a b) c = example_Union a (example_Union b c)"
  by (cases a; cases b; cases c; auto)

lemma example_Union_known: "a \<noteq> T_void \<Longrightarrow> b \<noteq> T_void \<Longrightarrow> example_Union a b \<noteq> T_void"
  by (cases a; cases b; auto)

lemma example_graph_simps [simp]:
  "Get example_graph 0 = Parameter 1"
  "Get example_graph 1 = WasmTypeCast 0 (T_ref True 2)"
  "Get example_graph (Suc 0) = WasmTypeCast 0 (T_ref True 2)"
  "Get example_graph 2 = WasmTypeAnnotation 1 (T_ref True 2)"
  "Get example_graph 3 = StructGet 2 [T_ref True 3] 0"
  "Get example_graph 4 = StructSet 2"
  "Get example_graph 5 = Phi [0, 3]"
  by (simp_all add: example_graph_def example_Get_def)

lemma example_analyzer_simps [simp]:
  "types_table (example_analyzer s) = \<lparr>active = Some s, started_from = []\<rparr>"
  "current_block (example_analyzer s) = Some 0"
  "block_is_unreachable (example_analyzer s) = {}"
  "is_first_loop_header_evaluation (example_analyzer s) = False"
  "input_type_map (example_analyzer s) = (\<lambda>i. None)"
  "block_to_snapshot (example_analyzer s) = (\<lambda>b. None)"
  by (simp_all add: example_analyzer_def initial_analyzer_def)

lemma example_analyzer_from_simps [simp]:
  "types_table (example_analyzer_from predecessors s) =
     \<lparr>active = Some s, started_from = predecessors\<rparr>"
  "current_block (example_analyzer_from predecessors s) = Some 0"
  "block_is_unreachable (example_analyzer_from predecessors s) = {}"
  "is_first_loop_header_evaluation (example_analyzer_from predecessors s) = False"
  by (simp_all add: example_analyzer_from_def initial_analyzer_def)

lemma example_analyzer_entering_simps [simp]:
  "block_to_snapshot (example_analyzer_entering block s) p = Some s"
  "current_block (example_analyzer_entering block s) = Some block"
  "block_is_unreachable (example_analyzer_entering block s) = {}"
  by (simp_all add: example_analyzer_entering_def initial_analyzer_def)

subsection \<open>Alias resolution\<close>

lemma ResolveAliases_end:
  "alias_object (Get g v) = None \<Longrightarrow> ResolveAliases g v = Some v"
  by (subst ResolveAliases.simps) (cases "Get g v"; simp)

lemma ResolveAliases_step:
  "alias_object (Get g v) = Some w \<Longrightarrow> ResolveAliases g v = ResolveAliases g w"
  by (subst ResolveAliases.simps) (cases "Get g v"; simp)

lemma alias_chain_last: "alias_chain g v r \<Longrightarrow> alias_object (Get g r) = None"
  by (induction rule: alias_chain.induct) auto

lemma ResolveAliases_chain: "alias_chain g v r \<Longrightarrow> ResolveAliases g v = Some r"
  by (induction rule: alias_chain.induct) (simp_all add: ResolveAliases_end ResolveAliases_step)

lemma ResolveAliases_pass:
  "alias_object (Get g v) \<noteq> None \<Longrightarrow>
   ResolveAliases g v = ResolveAliases g (the (alias_object (Get g v)))"
  by (auto simp: ResolveAliases_step)

lemma example_chain: "alias_chain example_graph 2 0"
proof -
  have "alias_chain example_graph 0 0" by (rule chain_end) simp
  then have "alias_chain example_graph 1 0" by (rule chain_step[rotated]) simp
  then show ?thesis by (rule chain_step[rotated]) simp
qed

lemma example_resolve [simp]:
  "ResolveAliases example_graph 0 = Some 0"
  "ResolveAliases example_graph 1 = Some 0"
  "ResolveAliases example_graph 2 = Some 0"
  "ResolveAliases example_graph 3 = Some 3"
  "ResolveAliases example_graph 5 = Some 5"
  by (simp_all add: ResolveAliases_pass ResolveAliases_end)

text \<open>
  C8. When the chain of pass-through operations from \<open>v\<close> is finite, ending at \<open>r\<close>,
  \<^verbatim>\<open>ResolveAliases\<close> returns, its result is \<open>r\<close>, the first value on the chain whose
  operation is not a cast, a non-null assertion or a type annotation, and resolving
  the result again gives the same value.
\<close>

theorem ResolveAliases_terminates_idempotent:
  assumes "alias_chain g v r"
  shows "ResolveAliases g v = Some r \<and> alias_object (Get g r) = None \<and>
         Option.bind (ResolveAliases g v) (ResolveAliases g) = ResolveAliases g v"
  using assms by (simp add: ResolveAliases_chain alias_chain_last ResolveAliases_end)

theorem ResolveAliases_terminates_idempotent_witness:
  "ResolveAliases example_graph 2 = Some 0 \<and> alias_object (Get example_graph 0) = None \<and>
   Option.bind (ResolveAliases example_graph 2) (ResolveAliases example_graph) =
     ResolveAliases example_graph 2"
  using ResolveAliases_terminates_idempotent[OF example_chain] .

subsection \<open>Refinement\<close>

lemma snapshot_value_update:
  "snapshot_value ora (AList.update k v s) k' = (if k' = k then v else snapshot_value ora s k')"
  by (simp add: snapshot_value_def update_conv')

lemma RefineTypeKnowledge_eq:
  assumes "current_block a = Some b" and "ResolveAliases g v = Some r"
    and "active (types_table a) = Some s"
  shows "RefineTypeKnowledge g ora v P a =
     (let previous_value = snapshot_value ora s r;
          intersection_type = (if previous_value = Void ora then P
                               else wasm_Intersection ora previous_value P)
      in Some (previous_value,
           a\<lparr>types_table := (types_table a)\<lparr>active := Some (AList.update r intersection_type s)\<rparr>,
             block_is_unreachable :=
               (if is_uninhabited ora intersection_type then insert b (block_is_unreachable a)
                else block_is_unreachable a)\<rparr>))"
  using assms
  by (simp add: RefineTypeKnowledge_def DCHECK_def table_Get_def table_Set_def Let_def)

lemma RefineTypeKnowledgeNotNull_eq:
  assumes "current_block a = Some b" and "ResolveAliases g v = Some r"
    and "active (types_table a) = Some s"
  shows "RefineTypeKnowledgeNotNull g ora v a =
     (let previous_value = snapshot_value ora s r
      in Some (previous_value,
           a\<lparr>types_table := (types_table a)\<lparr>active := Some (AList.update r (AsNonNull ora previous_value) s)\<rparr>,
             block_is_unreachable :=
               (if is_uninhabited ora previous_value then insert b (block_is_unreachable a)
                else block_is_unreachable a)\<rparr>))"
  using assms
  by (simp add: RefineTypeKnowledgeNotNull_def table_Get_def table_Set_def Let_def)

text \<open>
  C3. Let \<open>v\<close> resolve to \<open>r\<close> through its alias chain, and let the type oracle satisfy
  the contract \<open>intersect(unknown, P) = P\<close>. Then \<^verbatim>\<open>RefineTypeKnowledge\<close> returns
  normally; it returns the type \<open>r\<close> had before the call; it stores the intersection of
  that type with \<open>P\<close> for \<open>r\<close>; and the current block is added to the unreachable
  blocks exactly when that intersection is uninhabited. (The code does not call the
  oracle when the previous type is unknown: it stores \<open>P\<close>.)
\<close>

theorem RefineTypeKnowledge_intersects:
  assumes "current_block a = Some b" and "ResolveAliases g v = Some r"
    and "active (types_table a) = Some s"
    and "wasm_Intersection ora (Void ora) P = P"
  shows "\<exists>a'. RefineTypeKnowledge g ora v P a = Some (snapshot_value ora s r, a') \<and>
           table_Get ora (types_table a') r =
             Some (wasm_Intersection ora (snapshot_value ora s r) P) \<and>
           block_is_unreachable a' =
             (if is_uninhabited ora (wasm_Intersection ora (snapshot_value ora s r) P)
              then insert b (block_is_unreachable a) else block_is_unreachable a)"
  using assms(4)
  by (auto simp: RefineTypeKnowledge_eq[OF assms(1-3)] Let_def table_Get_def snapshot_value_update)

theorem RefineTypeKnowledge_intersects_witness:
  "\<exists>a'. RefineTypeKnowledge example_graph example_oracle 2 (T_ref False 0)
            (example_analyzer [(0, T_ref True 0)]) = Some (T_ref True 0, a') \<and>
         table_Get example_oracle (types_table a') 0 = Some (T_ref False 0) \<and>
         block_is_unreachable a' = {0}"
  using RefineTypeKnowledge_intersects[where a = "example_analyzer [(0, T_ref True 0)]"
      and b = 0 and g = example_graph and v = 2 and r = 0 and s = "[(0, T_ref True 0)]"
      and ora = example_oracle and P = "T_ref False 0"]
  by (simp add: snapshot_value_def)

text \<open>
  C9. \<^verbatim>\<open>RefineTypeKnowledgeNotNull\<close> returns the previous type of the resolved object,
  stores \<^verbatim>\<open>AsNonNull\<close> of it without any intersection, and adds the current block to the
  unreachable blocks exactly when the previous type was uninhabited. So for a previous
  type that is inhabited and whose non-null version is uninhabited, as the null
  sentinel, the stored type is uninhabited and the block is not marked by the call.
\<close>

theorem RefineTypeKnowledgeNotNull_unreachable_iff:
  assumes "current_block a = Some b" and "ResolveAliases g v = Some r"
    and "active (types_table a) = Some s"
  shows "\<exists>a'. RefineTypeKnowledgeNotNull g ora v a = Some (snapshot_value ora s r, a') \<and>
           table_Get ora (types_table a') r = Some (AsNonNull ora (snapshot_value ora s r)) \<and>
           block_is_unreachable a' =
             (if is_uninhabited ora (snapshot_value ora s r)
              then insert b (block_is_unreachable a) else block_is_unreachable a)"
  by (auto simp: RefineTypeKnowledgeNotNull_eq[OF assms(1-3)] Let_def table_Get_def snapshot_value_update)

theorem RefineTypeKnowledgeNotNull_unreachable_iff_witness:
  "\<exists>a'. RefineTypeKnowledgeNotNull example_graph example_oracle 2
            (example_analyzer [(0, example_ToNullSentinel (T_ref True 3))]) = Some (T_ref True 0, a') \<and>
         table_Get example_oracle (types_table a') 0 = Some (T_ref False 0) \<and>
         example_is_uninhabited (T_ref False 0) \<and>
         block_is_unreachable a' = {}"
  using RefineTypeKnowledgeNotNull_unreachable_iff[where a = "example_analyzer [(0, T_ref True 0)]"
      and b = 0 and g = example_graph and v = 2 and r = 0 and s = "[(0, T_ref True 0)]"
      and ora = example_oracle]
  by (simp add: snapshot_value_def)


subsection \<open>Struct field reads\<close>

text \<open>
  C7 (amended). A struct field read on an object that resolves to \<open>r\<close>: the input
  type recorded for the read is the type \<open>r\<close> had before the read (before the
  narrowing to non-null). The result's type after the read is the declared type of the
  field when nothing is known about the result when it is seeded, and the intersection
  of the type stored for the result with the declared type of the field otherwise;
  it does not depend on what the snapshot holds for other values. When the object is
  another value than the read, the type stored for the result when it is seeded is the
  one stored before the read, and the object is narrowed to the non-null version of
  its type.
\<close>

theorem ProcessStructGet_types:
  assumes "current_block a = Some b"
    and "Get g op_idx = StructGet object field_types field_index"
    and "field_index < length field_types"
    and "ResolveAliases g object = Some r"
    and "active (types_table a) = Some s"
  shows "\<exists>a'. ProcessStructGet g ora op_idx object field_types field_index a = Some a' \<and>
           input_type_map a' op_idx = Some (snapshot_value ora s r) \<and>
           table_Get ora (types_table a') op_idx =
             Some (let stored = (if r = op_idx then AsNonNull ora (snapshot_value ora s r)
                                 else snapshot_value ora s op_idx)
                   in if stored = Void ora then field_types ! field_index
                      else wasm_Intersection ora stored (field_types ! field_index)) \<and>
           (r \<noteq> op_idx \<longrightarrow>
              table_Get ora (types_table a') r = Some (AsNonNull ora (snapshot_value ora s r)))"
proof -
  have res: "ResolveAliases g op_idx = Some op_idx"
    using assms(2) by (simp add: ResolveAliases_end)
  let ?s1 = "AList.update r (AsNonNull ora (snapshot_value ora s r)) s"
  let ?a1 = "a\<lparr>types_table := (types_table a)\<lparr>active := Some ?s1\<rparr>,
             block_is_unreachable :=
               (if is_uninhabited ora (snapshot_value ora s r) then insert b (block_is_unreachable a)
                else block_is_unreachable a)\<rparr>"
  let ?a2 = "record_input_type op_idx (snapshot_value ora s r) ?a1"
  have nn: "RefineTypeKnowledgeNotNull g ora object a = Some (snapshot_value ora s r, ?a1)"
    using RefineTypeKnowledgeNotNull_eq[OF assms(1,4,5)] by (simp add: Let_def)
  have cb: "current_block ?a2 = Some b" using assms(1) by (simp add: record_input_type_def)
  have act: "active (types_table ?a2) = Some ?s1" by (simp add: record_input_type_def)
  let ?stored = "if r = op_idx then AsNonNull ora (snapshot_value ora s r)
                 else snapshot_value ora s op_idx"
  have stored: "snapshot_value ora ?s1 op_idx = ?stored"
    by (auto simp: snapshot_value_update)
  let ?F = "field_types ! field_index"
  let ?I = "if ?stored = Void ora then ?F else wasm_Intersection ora ?stored ?F"
  let ?a3 = "?a2\<lparr>types_table := (types_table ?a2)\<lparr>active := Some (AList.update op_idx ?I ?s1)\<rparr>,
             block_is_unreachable :=
               (if is_uninhabited ora ?I then insert b (block_is_unreachable ?a2)
                else block_is_unreachable ?a2)\<rparr>"
  have rf: "Refine g ora op_idx ?F ?a2 = Some ?a3"
    unfolding Refine_def RefineTypeKnowledge_eq[OF cb res act] stored by (simp add: Let_def)
  have "ProcessStructGet g ora op_idx object field_types field_index a = Refine g ora op_idx ?F ?a2"
    using assms(3) by (simp add: ProcessStructGet_def nn struct_field_def)
  then have p: "ProcessStructGet g ora op_idx object field_types field_index a = Some ?a3"
    using rf by simp
  have "input_type_map ?a3 op_idx = Some (snapshot_value ora s r) \<and>
        table_Get ora (types_table ?a3) op_idx = Some ?I \<and>
        (r \<noteq> op_idx \<longrightarrow>
           table_Get ora (types_table ?a3) r = Some (AsNonNull ora (snapshot_value ora s r)))"
    by (simp add: record_input_type_def table_Get_def snapshot_value_update)
  with p show ?thesis by (simp add: Let_def)
qed

theorem ProcessStructGet_types_witness:
  "(\<exists>a'. ProcessStructGet example_graph example_oracle 3 2 [T_ref True 3] 0
            (example_analyzer [(0, T_ref True 2), (7, T_ref False 1)]) = Some a' \<and>
         input_type_map a' 3 = Some (T_ref True 2) \<and>
         table_Get example_oracle (types_table a') 3 = Some (T_ref True 3) \<and>
         table_Get example_oracle (types_table a') 0 = Some (T_ref False 2)) \<and>
   (\<exists>a'. ProcessStructGet example_graph example_oracle 3 2 [T_ref True 3] 0
            (example_analyzer [(0, T_ref True 2), (3, T_ref True 1)]) = Some a' \<and>
         input_type_map a' 3 = Some (T_ref True 2) \<and>
         table_Get example_oracle (types_table a') 3 = Some (T_ref True 1) \<and>
         table_Get example_oracle (types_table a') 0 = Some (T_ref False 2))"
  using
    ProcessStructGet_types[where a = "example_analyzer [(0, T_ref True 2), (7, T_ref False 1)]"
      and b = 0 and g = example_graph and op_idx = 3 and object = 2
      and field_types = "[T_ref True 3]" and field_index = 0 and r = 0
      and s = "[(0, T_ref True 2), (7, T_ref False 1)]" and ora = example_oracle]
    ProcessStructGet_types[where a = "example_analyzer [(0, T_ref True 2), (3, T_ref True 1)]"
      and b = 0 and g = example_graph and op_idx = 3 and object = 2
      and field_types = "[T_ref True 3]" and field_index = 0 and r = 0
      and s = "[(0, T_ref True 2), (3, T_ref True 1)]" and ora = example_oracle]
  by (simp add: snapshot_value_def)

text \<open>
  The claim as stated fails: the result's type after the read is not always the
  declared type of the field. In the loop with the dead forward edge and the read in
  its body, the first visit of the body asks for a revisit, and the body is visited a
  second time with the types of its first visit: the object has the nullable type \<open>T_ref True 2\<close> of its annotation and the result of the
  read has the type \<open>T_ref True 1\<close> of its cast. The read records \<open>T_ref True 2\<close> as
  its input type, and the result keeps the type \<open>T_ref True 1\<close>, the intersection with
  the declared type \<open>T_ref True 3\<close> of the field.
\<close>

theorem ProcessStructGet_types_counterexample:
  "map_option fst (Run dead_read_graph example_oracle (example_iterator []) ([0, 1, 2, 3], 0)) =
     Some ([], 1) \<and>
   Option.bind (analyzer_at_block dead_read_graph example_oracle [0, 1, 2, 3] 3)
     (\<lambda>a. Some (table_Get example_oracle (types_table a) 0,
                 table_Get example_oracle (types_table a) 6)) =
     Some (Some (T_ref True 2), Some (T_ref True 1)) \<and>
   Option.bind (analyzer_at_block dead_read_graph example_oracle [0, 1, 2, 3] 3)
     (\<lambda>a. map_option (\<lambda>a'. (input_type_map a' 6, table_Get example_oracle (types_table a') 6))
        (ProcessStructGet dead_read_graph example_oracle 6 0 [T_ref True 3] 0 a)) =
     Some (Some (T_ref True 2), Some (T_ref True 1)) \<and>
   T_ref True 1 \<noteq> T_ref True 3"
  by code_simp

subsection \<open>Phis\<close>

lemma ProcessPhi_loop_contributed:
  "contributed_types g ora tbl inputs i = Some tys \<Longrightarrow>
   ProcessPhi_loop g ora tbl inputs i acc =
     Some (if Void ora \<in> set tys then None else Some (phi_accumulate ora acc tys))"
proof (induction inputs arbitrary: i acc tys)
  case Nil
  then show ?case by simp
next
  case (Cons inp inputs)
  from Cons.prems obtain r ty tys' where
    r: "ResolveAliases g inp = Some r" and ty: "GetPredecessorValue ora tbl r i = Some ty"
    and rest: "contributed_types g ora tbl inputs (i + 1) = Some tys'" and tys: "tys = ty # tys'"
    by (auto split: Option.bind_splits)
  show ?case
    using r ty tys Cons.IH[OF rest] by auto
qed

text \<open>
  C4 (amended). A phi with at least one input. On the first evaluation of a loop header
  the result is refined with the type of input 0 only. Otherwise, with the types the
  predecessors contribute to the inputs: if one of them is unknown, nothing is refined
  and the analyzer is left as it is; if none is, the result is refined with the type
  accumulated from predecessor 0's type over the other inputs, where a bottom input is
  skipped, a bottom accumulated type is replaced by the input's type, and the union is
  taken otherwise.
\<close>

theorem ProcessPhi_rule:
  assumes "inputs \<noteq> []"
  shows "(is_first_loop_header_evaluation a \<longrightarrow>
            ProcessPhi g ora op_idx inputs a =
              Option.bind (GetResolvedType g ora a (hd inputs)) (\<lambda>ty. Refine g ora op_idx ty a)) \<and>
         (\<not> is_first_loop_header_evaluation a \<and>
          contributed_types g ora (types_table a) inputs 0 = Some tys \<longrightarrow>
            ProcessPhi g ora op_idx inputs a =
              (if Void ora \<in> set tys then Some a
               else Refine g ora op_idx (phi_accumulate ora (hd tys) (tl tys)) a))"
proof (intro conjI impI)
  assume "is_first_loop_header_evaluation a"
  then show "ProcessPhi g ora op_idx inputs a =
      Option.bind (GetResolvedType g ora a (hd inputs)) (\<lambda>ty. Refine g ora op_idx ty a)"
    using assms by (simp add: ProcessPhi_def DCHECK_def)
next
  assume h: "\<not> is_first_loop_header_evaluation a \<and>
          contributed_types g ora (types_table a) inputs 0 = Some tys"
  from assms obtain inp rest where inputs: "inputs = inp # rest" by (cases inputs) auto
  from h inputs obtain r ty tys' where
    r: "ResolveAliases g inp = Some r"
    and ty: "GetPredecessorValue ora (types_table a) r 0 = Some ty"
    and rest: "contributed_types g ora (types_table a) rest 1 = Some tys'" and tys: "tys = ty # tys'"
    by (auto split: Option.bind_splits)
  show "ProcessPhi g ora op_idx inputs a =
      (if Void ora \<in> set tys then Some a
       else Refine g ora op_idx (phi_accumulate ora (hd tys) (tl tys)) a)"
    using h inputs r ty tys ProcessPhi_loop_contributed[OF rest, of ty]
    by (auto simp: ProcessPhi_def DCHECK_def)
qed


theorem ProcessPhi_rule_witness:
  "type_after example_oracle 5
     (ProcessPhi example_graph example_oracle 5 [0, 3]
        (example_analyzer_from [[(0, T_ref False 2)], [(3, T_ref True 1)]] [])) =
     Some (T_ref True 2) \<and>
   type_after example_oracle 5
     (ProcessPhi example_graph example_oracle 5 [0, 3]
        (example_analyzer_from [[], [(3, T_ref True 1)]] [])) = Some T_void \<and>
   type_after example_oracle 5
     (ProcessPhi example_graph example_oracle 5 [0, 3]
        ((example_analyzer [(0, T_ref False 2)])\<lparr>is_first_loop_header_evaluation := True\<rparr>)) =
     Some (T_ref False 2)"
  using
    ProcessPhi_rule[where inputs = "[0, 3]" and g = example_graph and ora = example_oracle
      and op_idx = 5 and tys = "[T_ref False 2, T_ref True 1]"
      and a = "example_analyzer_from [[(0, T_ref False 2)], [(3, T_ref True 1)]] []"]
    ProcessPhi_rule[where inputs = "[0, 3]" and g = example_graph and ora = example_oracle
      and op_idx = 5 and tys = "[T_void, T_ref True 1]"
      and a = "example_analyzer_from [[], [(3, T_ref True 1)]] []"]
    ProcessPhi_rule[where inputs = "[0, 3]" and g = example_graph and ora = example_oracle
      and op_idx = 5 and tys = "[]"
      and a = "(example_analyzer [(0, T_ref False 2)])\<lparr>is_first_loop_header_evaluation := True\<rparr>"]
  by (simp add: type_after_def GetPredecessorValue_def snapshot_value_def Refine_def
      RefineTypeKnowledge_def DCHECK_def table_Get_def table_Set_def GetResolvedType_def)

text \<open>
  The claim as stated fails in two ways. With an unknown contributed type the phi's
  result is not made unknown: the type stored for it before stays. In the loop with the
  dead forward edge, when the header is processed again, the merge takes the types of
  the back edge alone, the phi has the type \<open>T_ref True 1\<close> of the cast in the body,
  the type contributed to input 0 is unknown, and the phi keeps its type. And when the
  type of predecessor 0 is bottom, the result is refined with the type of the next
  input, not with the union of bottom and that type.
\<close>

lemma Run_dead_phi_loop:
  "Option.bind (analyzer_after dead_phi_graph example_oracle [0, 1, 2, 3])
     (\<lambda>a. map_option (\<lambda>s. (IsReachable a 1, snapshot_value example_oracle s 5)) (block_to_snapshot a 2)) =
   Some (False, T_ref True 1)"
  by code_simp

theorem ProcessPhi_rule_counterexample:
  "Option.bind (analyzer_at_revisit dead_phi_graph example_oracle [0, 1, 2] 3 2)
     (\<lambda>a. map_option (Pair (contributed_types dead_phi_graph example_oracle (types_table a) [0, 8] 0))
        (type_after example_oracle 5 (ProcessPhi dead_phi_graph example_oracle 5 [0, 8] a))) =
     Some (Some [T_void, T_ref True 2], T_ref True 1) \<and>
   T_ref True 1 \<noteq> Void example_oracle \<and>
   type_after example_oracle 5
     (ProcessPhi example_graph example_oracle 5 [0, 3]
        (example_analyzer_from [[(0, T_bottom)], [(3, T_ref True 2)]] [])) =
     Some (T_ref True 2) \<and>
   phi_union_only example_oracle T_bottom [T_ref True 2] = T_bottom"
  by code_simp


subsection \<open>Merging snapshots\<close>

lemma merge_rest_eq:
  "merge_rest ora first l res eq =
     (foldl (merge_step ora) res (map snd (filter (\<lambda>(r, ty). r \<and> ty \<noteq> kWasmBottom ora) l)),
      eq \<and> (\<forall>ty \<in> set (map snd (filter (\<lambda>(r, ty). r \<and> ty \<noteq> kWasmBottom ora) l)). first = ty))"
  by (induction ora first l res eq rule: merge_rest.induct) (auto simp: merge_step_def)

lemma merge_first_eq:
  "merge_first ora l =
     (case filter (\<lambda>(r, ty). r \<and> ty \<noteq> kWasmBottom ora) l of
        [] \<Rightarrow> (kWasmBottom ora, [])
      | x # xs \<Rightarrow> (snd x, snd (merge_first ora l)))"
  by (induction ora l rule: merge_first.induct) (auto split: list.splits)

lemma merge_first_rest:
  "filter (\<lambda>(r, ty). r \<and> ty \<noteq> kWasmBottom ora) (snd (merge_first ora l)) =
     tl (filter (\<lambda>(r, ty). r \<and> ty \<noteq> kWasmBottom ora) l)"
  by (induction ora l rule: merge_first.induct) auto

lemma merge_first_fst:
  "fst (merge_first ora l) =
     (case filter (\<lambda>(r, ty). r \<and> ty \<noteq> kWasmBottom ora) l of
        [] \<Rightarrow> kWasmBottom ora | x # xs \<Rightarrow> snd x)"
  by (induction ora l rule: merge_first.induct) (auto split: list.splits)

lemma merge_lambda_eq:
  assumes "length tys > 1"
  shows "merge_lambda ora reachable key tys eq =
     Some (merged_type ora (contributing ora reachable tys),
           eq \<and> (\<forall>ty \<in> set (contributing ora reachable tys).
                   ty = hd (contributing ora reachable tys)))"
proof -
  let ?P = "\<lambda>(r, ty). r \<and> ty \<noteq> kWasmBottom ora"
  let ?l = "zip reachable tys"
  obtain first rest where fr: "merge_first ora ?l = (first, rest)" by (cases "merge_first ora ?l")
  have f: "first = (case filter ?P ?l of [] \<Rightarrow> kWasmBottom ora | x # xs \<Rightarrow> snd x)"
    using merge_first_fst[of ora ?l] fr by simp
  have r: "filter ?P rest = tl (filter ?P ?l)"
    using merge_first_rest[of ora ?l] fr by simp
  have m: "merge_rest ora first rest first eq =
      (foldl (merge_step ora) first (map snd (tl (filter ?P ?l))),
       eq \<and> (\<forall>ty \<in> set (map snd (tl (filter ?P ?l))). first = ty))"
    unfolding merge_rest_eq r ..
  have "merge_lambda ora reachable key tys eq = Some (merge_rest ora first rest first eq)"
    using assms by (simp add: merge_lambda_def DCHECK_def fr)
  also have "merge_rest ora first rest first eq =
      (merged_type ora (contributing ora reachable tys),
       eq \<and> (\<forall>ty \<in> set (contributing ora reachable tys).
               ty = hd (contributing ora reachable tys)))"
    unfolding m using f
    by (cases "filter ?P ?l") (auto simp: merged_type_def contributing_def)
  finally show ?thesis .
qed

lemma merge_entries_eq:
  assumes "length predecessors > 1"
  shows "merge_entries ora predecessors (merge_lambda ora reachable) keys eq =
     Some (map (\<lambda>k. (k, merged_type ora (contributing ora reachable (predecessor_values ora predecessors k)))) keys,
           eq \<and> (\<forall>k \<in> set keys. \<not> types_differ ora reachable predecessors k))"
  using assms
proof (induction keys arbitrary: eq)
  case Nil
  then show ?case by simp
next
  case (Cons k keys)
  have len: "length (map (\<lambda>s. snapshot_value ora s k) predecessors) > 1"
    using Cons.prems by simp
  show ?case
    using Cons.IH[OF Cons.prems]
    by (auto simp: merge_lambda_eq[OF len] predecessor_values_def types_differ_def)
qed

lemma CreateMergeSnapshot_eq:
  assumes "length predecessors = length reachable" and "length predecessors > 1"
  shows "CreateMergeSnapshot ora predecessors reachable a =
     Some (\<exists>k \<in> set (merge_keys predecessors). types_differ ora reachable predecessors k,
           a\<lparr>types_table :=
               \<lparr>active = Some (map (\<lambda>k. (k, merged_type ora (contributing ora reachable
                                     (predecessor_values ora predecessors k)))) (merge_keys predecessors)),
                started_from = predecessors\<rparr>\<rparr>)"
  using assms
  by (simp add: CreateMergeSnapshot_def DCHECK_def StartNewSnapshot_merge_def
      merge_entries_eq[OF assms(2)])


lemma fold_merge_option_step_Some:
  "fold (merge_option_step ora) tys (Some res) = Some (foldl (merge_step ora) res tys)"
  by (induction tys arbitrary: res) (simp_all add: merge_option_step_def)

lemma merged_type_fold:
  "merged_type ora tys =
     (case fold (merge_option_step ora) tys None of None \<Rightarrow> kWasmBottom ora | Some ty \<Rightarrow> ty)"
proof (cases tys)
  case Nil
  then show ?thesis by (simp add: merged_type_def)
next
  case (Cons ty rest)
  have "fold (merge_option_step ora) tys None = Some (foldl (merge_step ora) ty rest)"
    unfolding Cons by (simp add: merge_option_step_def fold_merge_option_step_Some)
  then show ?thesis by (simp add: merged_type_def Cons)
qed

lemma merge_step_commute:
  "union_laws ora \<Longrightarrow> merge_step ora a b = merge_step ora b a"
  by (auto simp: merge_step_def union_laws_def)

lemma merge_step_assoc:
  "union_laws ora \<Longrightarrow>
   merge_step ora (merge_step ora a b) c = merge_step ora a (merge_step ora b c)"
  by (auto simp: merge_step_def union_laws_def)

lemma merge_option_step_commute:
  assumes "union_laws ora"
  shows "merge_option_step ora x \<circ> merge_option_step ora y =
         merge_option_step ora y \<circ> merge_option_step ora x"
proof
  fix acc
  show "(merge_option_step ora x \<circ> merge_option_step ora y) acc =
        (merge_option_step ora y \<circ> merge_option_step ora x) acc"
  proof (cases acc)
    case None
    then show ?thesis
      by (simp add: merge_option_step_def merge_step_commute[OF assms])
  next
    case (Some res)
    have "merge_step ora (merge_step ora res y) x = merge_step ora (merge_step ora res x) y"
      by (metis merge_step_assoc[OF assms] merge_step_commute[OF assms])
    then show ?thesis by (simp add: merge_option_step_def Some)
  qed
qed

lemma merged_type_mset:
  assumes "union_laws ora" and "mset tys = mset tys'"
  shows "merged_type ora tys = merged_type ora tys'"
proof -
  have "fold (merge_option_step ora) tys = fold (merge_option_step ora) tys'"
    by (rule fold_multiset_equiv) (simp_all add: merge_option_step_commute[OF assms(1)] assms(2))
  then show ?thesis by (simp add: merged_type_fold)
qed

lemma contributing_pairs:
  "contributing ora (map snd ps) (predecessor_values ora (map fst ps) k) =
     map snd (filter (\<lambda>(r, ty). r \<and> ty \<noteq> kWasmBottom ora)
                (map (\<lambda>p. (snd p, snapshot_value ora (fst p) k)) ps))"
  by (simp add: contributing_def predecessor_values_def zip_map_map zip_same_conv_map comp_def)

lemma contributing_mset:
  assumes "mset ps = mset ps'"
  shows "mset (contributing ora (map snd ps) (predecessor_values ora (map fst ps) k)) =
         mset (contributing ora (map snd ps') (predecessor_values ora (map fst ps') k))"
  unfolding contributing_pairs mset_map mset_filter assms ..

lemma merge_keys_set:
  assumes "mset ps = mset ps'"
  shows "set (merge_keys (map fst ps)) = set (merge_keys (map fst ps'))"
proof -
  have "set ps = set ps'" using assms by (rule mset_eq_setD)
  then show ?thesis by (simp add: merge_keys_def)
qed

lemma snapshot_value_merged:
  "snapshot_value ora (map (\<lambda>k. (k, f k)) keys) k = (if k \<in> set keys then f k else Void ora)"
  by (induction keys) (auto simp: snapshot_value_def)

lemma example_union_laws: "union_laws example_oracle"
  unfolding union_laws_def example_oracle_simps
  using example_Union_commute example_Union_assoc example_Union_known by blast

text \<open>
  C6. When the union of the type oracle is commutative and associative and gives a type
  for two types, the merge of two or more predecessor snapshots, each with its
  reachability flag, computes the same type for every key whatever the order of the
  predecessors.
\<close>

theorem CreateMergeSnapshot_order_independent:
  assumes "union_laws ora" and "mset ps = mset ps'" and "length ps > 1"
  shows "\<exists>b a1 b' a1'.
           CreateMergeSnapshot ora (map fst ps) (map snd ps) a = Some (b, a1) \<and>
           CreateMergeSnapshot ora (map fst ps') (map snd ps') a = Some (b', a1') \<and>
           (\<forall>k. table_Get ora (types_table a1) k = table_Get ora (types_table a1') k)"
proof -
  have len: "length ps' = length ps" using assms(2) by (metis size_mset)
  have l1: "length (map fst ps) = length (map snd ps)" "length (map fst ps) > 1"
    using assms(3) by simp_all
  have l2: "length (map fst ps') = length (map snd ps')" "length (map fst ps') > 1"
    using assms(3) len by simp_all
  have v: "merged_type ora (contributing ora (map snd ps) (predecessor_values ora (map fst ps) k)) =
           merged_type ora (contributing ora (map snd ps') (predecessor_values ora (map fst ps') k))"
    for k
    by (rule merged_type_mset[OF assms(1) contributing_mset[OF assms(2)]])
  have "table_Get ora (types_table (snd (the (CreateMergeSnapshot ora (map fst ps) (map snd ps) a)))) k =
        table_Get ora (types_table (snd (the (CreateMergeSnapshot ora (map fst ps') (map snd ps') a)))) k"
    for k
    unfolding CreateMergeSnapshot_eq[OF l1] CreateMergeSnapshot_eq[OF l2]
    by (simp add: table_Get_def snapshot_value_merged merge_keys_set[OF assms(2)] v)
  then show ?thesis
    unfolding CreateMergeSnapshot_eq[OF l1] CreateMergeSnapshot_eq[OF l2]
    by (intro exI conjI allI) (rule refl, rule refl, simp)
qed

theorem CreateMergeSnapshot_order_independent_witness:
  "\<exists>b a1 b' a1'.
     CreateMergeSnapshot example_oracle
       [[(0, T_ref False 2)], [(0, T_ref True 1)], [(0, T_ref True 3)]] [True, True, False]
       initial_analyzer = Some (b, a1) \<and>
     CreateMergeSnapshot example_oracle
       [[(0, T_ref True 3)], [(0, T_ref True 1)], [(0, T_ref False 2)]] [False, True, True]
       initial_analyzer = Some (b', a1') \<and>
     (\<forall>k. table_Get example_oracle (types_table a1) k =
          table_Get example_oracle (types_table a1') k)"
  using CreateMergeSnapshot_order_independent[OF example_union_laws,
      where ps = "[([(0, T_ref False 2)], True), ([(0, T_ref True 1)], True), ([(0, T_ref True 3)], False)]"
      and ps' = "[([(0, T_ref True 3)], False), ([(0, T_ref True 1)], True), ([(0, T_ref False 2)], True)]"
      and a = initial_analyzer]
  by simp

text \<open>
  C2 (amended). For two or more predecessors, the boolean \<^verbatim>\<open>CreateMergeSnapshot\<close>
  returns is true exactly when, for some key of the predecessors, the types of the
  reachable predecessors that are not bottom are not all the same. The types are
  compared with each other within the call; nothing an earlier merge produced is read.
\<close>

theorem CreateMergeSnapshot_returns_difference:
  assumes "length predecessors = length reachable" and "length predecessors > 1"
  shows "\<exists>a'. CreateMergeSnapshot ora predecessors reachable a =
           Some (\<exists>k \<in> set (merge_keys predecessors). types_differ ora reachable predecessors k, a')"
  by (simp add: CreateMergeSnapshot_eq[OF assms])

theorem CreateMergeSnapshot_returns_difference_witness:
  "map_option fst (CreateMergeSnapshot example_oracle [[(0, T_ref False 2)], [(0, T_ref True 1)]]
      [True, True] initial_analyzer) = Some True \<and>
   map_option fst (CreateMergeSnapshot example_oracle [[(0, T_ref False 2)], [(0, T_ref False 2)]]
      [True, True] initial_analyzer) = Some False \<and>
   map_option fst (CreateMergeSnapshot example_oracle [[(0, T_bottom)], [(0, T_ref False 2)]]
      [True, True] initial_analyzer) = Some False"
  using
    CreateMergeSnapshot_returns_difference[where ora = example_oracle and a = initial_analyzer
      and predecessors = "[[(0, T_ref False 2)], [(0, T_ref True 1)]]" and reachable = "[True, True]"]
    CreateMergeSnapshot_returns_difference[where ora = example_oracle and a = initial_analyzer
      and predecessors = "[[(0, T_ref False 2)], [(0, T_ref False 2)]]" and reachable = "[True, True]"]
    CreateMergeSnapshot_returns_difference[where ora = example_oracle and a = initial_analyzer
      and predecessors = "[[(0, T_bottom)], [(0, T_ref False 2)]]" and reachable = "[True, True]"]
  by (auto simp: merge_keys_def types_differ_def contributing_def predecessor_values_def
      snapshot_value_def)

text \<open>
  The claim as stated fails: a merge of two snapshots that differ returns true, and a
  second merge of the same snapshots, which computes exactly the snapshot the first
  merge computed, returns true again.
\<close>

theorem CreateMergeSnapshot_returns_difference_counterexample:
  "merge_twice example_oracle [[(0, T_ref False 2)], [(0, T_ref True 1)]] [True, True]
     initial_analyzer =
   Some (True, [(0, T_ref True 2)], True, [(0, T_ref True 2)])"
  by code_simp

subsection \<open>Branch targets\<close>

lemma StartNewSnapshotFor_branch_target:
  assumes "kind (GetBlock g block) = kBranchTarget"
    and "Predecessors (GetBlock g block) = [p]"
    and "LastOperation g (GetBlock g p) = Some (Branch condition if_true if_false)"
    and "block_to_snapshot a p = Some snap"
  shows "StartNewSnapshotFor g ora block a =
           ProcessBranchOnTarget g ora condition if_true if_false block
             (branch_target_start block snap a)"
  using assms
  by (simp add: StartNewSnapshotFor_def Let_def HasPredecessors_def IsLoop_def IsBranchTarget_def
      DCHECK_def LastPredecessor_def branch_target_start_def)

lemma loop_graph_block_2:
  "kind (GetBlock loop_graph 2) = kBranchTarget"
  "Predecessors (GetBlock loop_graph 2) = [1]"
  "kind (GetBlock loop_graph 3) = kBranchTarget"
  "Predecessors (GetBlock loop_graph 3) = [1]"
  "LastOperation loop_graph (GetBlock loop_graph 1) = Some (Branch 3 2 3)"
  "Get loop_graph 3 = WasmTypeCheck 2 (T_ref True 1)"
  "ResolveAliases loop_graph 2 = Some 2"
  by (simp_all add: loop_graph_def loop_Block_def loop_Get_def LastOperation_def ResolveAliases_end)

text \<open>
  C5. A block of kind branch target with the single predecessor \<open>p\<close>, which ends in a
  branch on a type check of \<open>object\<close> against \<open>U\<close>. When the block is the true target,
  the object is refined with \<open>U\<close>. When it is the false target and the type known for
  the object is a subtype of \<open>U\<close>, the block is marked unreachable and the table is not
  changed. When it is the false target and the known type is not a subtype of \<open>U\<close>,
  nothing is refined and nothing is marked.
\<close>

theorem StartNewSnapshotFor_type_check_target:
  assumes "kind (GetBlock g block) = kBranchTarget"
    and "Predecessors (GetBlock g block) = [p]"
    and "LastOperation g (GetBlock g p) = Some (Branch condition if_true if_false)"
    and "Get g condition = WasmTypeCheck object U"
    and "block_to_snapshot a p = Some snap"
    and "current_block a = Some block"
    and "ResolveAliases g object = Some r"
  shows "(if_true = block \<longrightarrow>
            StartNewSnapshotFor g ora block a =
              Refine g ora object U (branch_target_start block snap a)) \<and>
         (if_true \<noteq> block \<and> if_false = block \<and> IsSubtypeOf ora (snapshot_value ora snap r) U \<longrightarrow>
            StartNewSnapshotFor g ora block a =
              Some (mark_unreachable block (branch_target_start block snap a))) \<and>
         (if_true \<noteq> block \<and> if_false = block \<and> \<not> IsSubtypeOf ora (snapshot_value ora snap r) U \<longrightarrow>
            StartNewSnapshotFor g ora block a = Some (branch_target_start block snap a))"
  using assms(2,4,6,7)
  by (simp add: StartNewSnapshotFor_branch_target[OF assms(1,2,3,5)] ProcessBranchOnTarget_def
      DCHECK_def branch_target_start_def GetResolvedType_def table_Get_def StartNewSnapshot_from_def)

theorem StartNewSnapshotFor_type_check_target_witness:
  "type_after example_oracle 2
     (StartNewSnapshotFor loop_graph example_oracle 2
        (example_analyzer_entering 2 [(2, T_ref True 2)])) = Some (T_ref True 1) \<and>
   map_option (\<lambda>a. (block_is_unreachable a, table_Get example_oracle (types_table a) 2))
     (StartNewSnapshotFor loop_graph example_oracle 3
        (example_analyzer_entering 3 [(2, T_ref False 1)])) = Some ({3}, Some (T_ref False 1)) \<and>
   map_option (\<lambda>a. (block_is_unreachable a, table_Get example_oracle (types_table a) 2))
     (StartNewSnapshotFor loop_graph example_oracle 3
        (example_analyzer_entering 3 [(2, T_ref True 2)])) = Some ({}, Some (T_ref True 2))"
  using
    StartNewSnapshotFor_type_check_target[OF loop_graph_block_2(1,2,5,6) _ _ loop_graph_block_2(7),
      where a = "example_analyzer_entering 2 [(2, T_ref True 2)]" and ora = example_oracle
      and snap = "[(2, T_ref True 2)]"]
    StartNewSnapshotFor_type_check_target[OF loop_graph_block_2(3,4,5,6) _ _ loop_graph_block_2(7),
      where a = "example_analyzer_entering 3 [(2, T_ref False 1)]" and ora = example_oracle
      and snap = "[(2, T_ref False 1)]"]
    StartNewSnapshotFor_type_check_target[OF loop_graph_block_2(3,4,5,6) _ _ loop_graph_block_2(7),
      where a = "example_analyzer_entering 3 [(2, T_ref True 2)]" and ora = example_oracle
      and snap = "[(2, T_ref True 2)]"]
  by (simp add: type_after_def branch_target_start_def mark_unreachable_def Refine_def
      RefineTypeKnowledge_def DCHECK_def table_Get_def table_Set_def StartNewSnapshot_from_def
      snapshot_value_def loop_graph_block_2(7))

subsection \<open>The driver\<close>

text \<open>Processing a block does not change the snapshots recorded for the blocks.\<close>

lemma RefineTypeKnowledge_b2s:
  "RefineTypeKnowledge g ora v P a = Some (t, a') \<Longrightarrow> block_to_snapshot a' = block_to_snapshot a"
  by (auto simp: RefineTypeKnowledge_def Let_def split: Option.bind_splits)

lemma RefineTypeKnowledgeNotNull_b2s:
  "RefineTypeKnowledgeNotNull g ora v a = Some (t, a') \<Longrightarrow> block_to_snapshot a' = block_to_snapshot a"
  by (auto simp: RefineTypeKnowledgeNotNull_def Let_def split: Option.bind_splits)

lemma Refine_b2s:
  "Refine g ora v P a = Some a' \<Longrightarrow> block_to_snapshot a' = block_to_snapshot a"
  by (auto simp: Refine_def dest!: RefineTypeKnowledge_b2s)

lemma ProcessPhi_b2s:
  "ProcessPhi g ora i inputs a = Some a' \<Longrightarrow> block_to_snapshot a' = block_to_snapshot a"
  by (auto simp: ProcessPhi_def split: Option.bind_splits if_splits option.splits dest!: Refine_b2s)

lemma ProcessOperation_b2s:
  "ProcessOperation g ora i a = Some a' \<Longrightarrow> block_to_snapshot a' = block_to_snapshot a"
  by (cases "Get g i")
    (auto simp: ProcessOperation_def ProcessTypeCast_def ProcessTypeCheck_def
      ProcessAssertNotNull_def ProcessNull_def ProcessIsNull_def ProcessParameter_def
      ProcessStructGet_def ProcessStructSet_def ProcessArrayLength_def ProcessGlobalGet_def
      ProcessRefFunc_def ProcessAllocateArray_def ProcessAllocateStruct_def
      ProcessTypeAnnotation_def record_input_type_def Let_def
      split: Option.bind_splits if_splits
      dest!: Refine_b2s RefineTypeKnowledge_b2s RefineTypeKnowledgeNotNull_b2s ProcessPhi_b2s)

lemma ProcessOperations_loop_b2s:
  "ProcessOperations_loop g ora ops a = Some a' \<Longrightarrow> block_to_snapshot a' = block_to_snapshot a"
  by (induction ops arbitrary: a) (auto split: option.splits dest!: ProcessOperation_b2s)

lemma CreateMergeSnapshot_b2s:
  "CreateMergeSnapshot ora ps rs a = Some (b, a') \<Longrightarrow> block_to_snapshot a' = block_to_snapshot a"
  by (auto simp: CreateMergeSnapshot_def split: Option.bind_splits)

lemma CreateMergeSnapshot_block_b2s:
  "CreateMergeSnapshot_block g ora block a = Some a' \<Longrightarrow> block_to_snapshot a' = block_to_snapshot a"
  by (auto simp: CreateMergeSnapshot_block_def split: Option.bind_splits dest!: CreateMergeSnapshot_b2s)

lemma ProcessBranchOnTarget_b2s:
  "ProcessBranchOnTarget g ora c t f block a = Some a' \<Longrightarrow> block_to_snapshot a' = block_to_snapshot a"
  by (cases "Get g c")
    (auto simp: ProcessBranchOnTarget_def mark_unreachable_def
      split: Option.bind_splits if_splits dest!: Refine_b2s)

lemma StartNewSnapshotFor_b2s:
  "StartNewSnapshotFor g ora block a = Some a' \<Longrightarrow> block_to_snapshot a' = block_to_snapshot a"
  by (auto simp: StartNewSnapshotFor_def Let_def
      split: Option.bind_splits if_splits option.splits Operation.splits
      dest!: CreateMergeSnapshot_block_b2s ProcessBranchOnTarget_b2s)

lemma ProcessBlock_b2s:
  "ProcessBlock g ora block a = Some a' \<Longrightarrow> block_to_snapshot a' = block_to_snapshot a"
  by (auto simp: ProcessBlock_def ProcessOperations_def split: Option.bind_splits
      dest!: StartNewSnapshotFor_b2s ProcessOperations_loop_b2s)


lemma types_differ_two:
  "types_differ ora [True, True] [old_snapshot, snapshot] k =
     (snapshot_value ora old_snapshot k \<noteq> kWasmBottom ora \<and>
      snapshot_value ora snapshot k \<noteq> kWasmBottom ora \<and>
      snapshot_value ora old_snapshot k \<noteq> snapshot_value ora snapshot k)"
  by (auto simp: types_differ_def contributing_def predecessor_values_def)

lemma Run_revisit_eq:
  assumes "ProcessBlock g ora header a1 = Some a2"
    and "block_to_snapshot a1 header = Some old_snapshot"
    and "active (types_table a2) = Some snapshot"
  shows "\<exists>a'. Run_revisit g ora itr header (iterator, a1) =
             Some (if snapshots_differ ora old_snapshot snapshot
                   then MarkLoopForRevisitSkipHeader itr iterator else iterator, a') \<and>
           block_to_snapshot a' =
             (if snapshots_differ ora old_snapshot snapshot
              then (block_to_snapshot a1)(header := Some snapshot) else block_to_snapshot a1) \<and>
           active (types_table a') = None \<and>
           block_is_unreachable a' = block_is_unreachable a2 \<and>
           input_type_map a' = input_type_map a2"
proof -
  have b2s: "block_to_snapshot a2 = block_to_snapshot a1"
    using assms(1) by (rule ProcessBlock_b2s)
  then have old: "block_to_snapshot a2 header = Some old_snapshot"
    using assms(2) by simp
  let ?tbl1 = "(types_table a2)\<lparr>active := None\<rparr>"
  let ?m = "map (\<lambda>k. (k, merged_type ora (contributing ora [True, True]
                 (predecessor_values ora [old_snapshot, snapshot] k))))
              (merge_keys [old_snapshot, snapshot])"
  let ?a3 = "a2\<lparr>types_table := \<lparr>active = Some ?m, started_from = [old_snapshot, snapshot]\<rparr>\<rparr>"
  let ?a4 = "a2\<lparr>types_table := \<lparr>active = None, started_from = [old_snapshot, snapshot]\<rparr>\<rparr>"
  let ?D = "snapshots_differ ora old_snapshot snapshot"
  have seal: "table_Seal (types_table a2) = Some (snapshot, ?tbl1)"
    using assms(3) by (simp add: table_Seal_def)
  have len: "length [old_snapshot, snapshot] = length [True, True]"
    "length [old_snapshot, snapshot] > 1"
    by simp_all
  have m: "CreateMergeSnapshot ora [old_snapshot, snapshot] [True, True] (a2\<lparr>types_table := ?tbl1\<rparr>) =
      Some (?D, ?a3)"
    by (simp add: CreateMergeSnapshot_eq[OF len] snapshots_differ_def types_differ_two)
  have seal2: "table_Seal \<lparr>active = Some ?m, started_from = [old_snapshot, snapshot]\<rparr> =
      Some (?m, \<lparr>active = None, started_from = [old_snapshot, snapshot]\<rparr>)"
    by (simp add: table_Seal_def)
  have r: "Run_revisit g ora itr header (iterator, a1) =
      (if ?D then Some (MarkLoopForRevisitSkipHeader itr iterator,
                        ?a4\<lparr>block_to_snapshot := (block_to_snapshot ?a4)(header := Some snapshot)\<rparr>)
       else Some (iterator, ?a4))"
    unfolding Run_revisit_def by (simp add: assms(1) old seal m seal2)
  show ?thesis
  proof (cases ?D)
    case True
    then show ?thesis using r b2s by simp
  next
    case False
    then show ?thesis using r b2s by simp
  qed
qed

text \<open>
  The run of the analysis on the example loop: the header is evaluated with the phi of
  type \<open>T_ref False 2\<close>, the body is visited, the header snapshot is replaced by the
  one with the phi of type \<open>T_ref True 2\<close> and one revisit is asked for; after the
  second visit of the body nothing changes and no revisit is asked for.
\<close>

lemma Run_example_loop:
  "map_option (\<lambda>(it, a). (it, block_to_snapshot a 1))
     (Run loop_graph example_oracle (example_iterator [2]) ([0, 1, 2, 3], 0)) =
   Some (([], 1), Some [(0, T_ref False 2), (2, T_ref True 2), (5, T_void)])"
  by code_simp

lemma example_loop_first_visit:
  "case analyzer_after loop_graph example_oracle [0, 1] of
     None \<Rightarrow> False
   | Some a \<Rightarrow>
       (case Run_process loop_graph example_oracle 2 a of
          None \<Rightarrow> False
        | Some a1 \<Rightarrow>
            revisit_condition loop_graph 2 1 a1 \<and>
            block_to_snapshot a1 1 = Some [(0, T_ref False 2), (2, T_ref False 2)] \<and>
            (case ProcessBlock loop_graph example_oracle 1 a1 of
               None \<Rightarrow> False
             | Some a2 \<Rightarrow>
                 active (types_table a2) = Some [(0, T_ref False 2), (2, T_ref True 2), (5, T_void)]))"
  by code_simp

lemma example_loop_first_differ: "snapshots_differ example_oracle [(0, T_ref False 2), (2, T_ref False 2)]
      [(0, T_ref False 2), (2, T_ref True 2), (5, T_void)]"
  by code_simp

lemma example_loop_second_visit:
  "case analyzer_after loop_graph example_oracle [0, 1, 2] of
     None \<Rightarrow> False
   | Some a \<Rightarrow>
       (case Run_process loop_graph example_oracle 2 a of
          None \<Rightarrow> False
        | Some a1 \<Rightarrow>
            revisit_condition loop_graph 2 1 a1 \<and>
            block_to_snapshot a1 1 = Some [(0, T_ref False 2), (2, T_ref True 2), (5, T_void)] \<and>
            (case ProcessBlock loop_graph example_oracle 1 a1 of
               None \<Rightarrow> False
             | Some a2 \<Rightarrow>
                 active (types_table a2) = Some [(0, T_ref False 2), (2, T_ref True 2), (5, T_void)]))"
  by code_simp

lemma example_loop_second_same: "\<not> snapshots_differ example_oracle [(0, T_ref False 2), (2, T_ref True 2), (5, T_void)]
      [(0, T_ref False 2), (2, T_ref True 2), (5, T_void)]"
  by code_simp

text \<open>
  C1 (amended). Let the block end in a goto to a loop header of which it is the last
  predecessor, and let it be reachable after its processing. After the block's snapshot
  is sealed and recorded, the header is processed again, which gives the candidate
  snapshot, and the previously recorded header snapshot is merged with the candidate.
  When the merge reports a difference (for some key both snapshots have a type that is
  not bottom and the types differ), the candidate snapshot, not the merged one, is
  recorded for the header and \<^verbatim>\<open>MarkLoopForRevisitSkipHeader\<close> is called once;
  otherwise the recorded snapshots and the iterator stay as they are. In both cases the
  merged snapshot is sealed and dropped.
\<close>

theorem Run_iteration_loop_revisit:
  assumes "Run_process g ora block a = Some a1"
    and "LastOperation g (GetBlock g block) = Some (Goto header)"
    and "revisit_condition g block header a1"
    and "ProcessBlock g ora header a1 = Some a2"
    and "block_to_snapshot a1 header = Some old_snapshot"
    and "active (types_table a2) = Some snapshot"
  shows "\<exists>a'. Run_iteration g ora itr block (iterator, a) =
             Some (if snapshots_differ ora old_snapshot snapshot
                   then MarkLoopForRevisitSkipHeader itr iterator else iterator, a') \<and>
           block_to_snapshot a' =
             (if snapshots_differ ora old_snapshot snapshot
              then (block_to_snapshot a1)(header := Some snapshot) else block_to_snapshot a1) \<and>
           active (types_table a') = None \<and>
           block_is_unreachable a' = block_is_unreachable a2 \<and>
           input_type_map a' = input_type_map a2"
proof -
  have "Run_iteration g ora itr block (iterator, a) = Run_revisit g ora itr header (iterator, a1)"
    using assms(1-3) by (simp add: Run_iteration_def)
  then show ?thesis
    using Run_revisit_eq[OF assms(4-6), where itr = itr and iterator = iterator]
    by simp
qed

theorem Run_iteration_loop_revisit_witness:
  "Option.bind (analyzer_after loop_graph example_oracle [0, 1])
     (\<lambda>a. map_option (\<lambda>(it, a'). (it, block_to_snapshot a' 1))
        (Run_iteration loop_graph example_oracle (example_iterator [2]) 2 (([3], 0), a))) =
   Some (([2, 3], 1), Some [(0, T_ref False 2), (2, T_ref True 2), (5, T_void)]) \<and>
   Option.bind (analyzer_after loop_graph example_oracle [0, 1, 2])
     (\<lambda>a. map_option (\<lambda>(it, a'). (it, block_to_snapshot a' 1))
        (Run_iteration loop_graph example_oracle (example_iterator [2]) 2 (([3], 1), a))) =
   Some (([3], 1), Some [(0, T_ref False 2), (2, T_ref True 2), (5, T_void)])"
proof
  from example_loop_first_visit obtain a a1 a2 where
    a: "analyzer_after loop_graph example_oracle [0, 1] = Some a"
    and a1: "Run_process loop_graph example_oracle 2 a = Some a1"
    and c: "revisit_condition loop_graph 2 1 a1"
    and old: "block_to_snapshot a1 1 = Some [(0, T_ref False 2), (2, T_ref False 2)]"
    and a2: "ProcessBlock loop_graph example_oracle 1 a1 = Some a2"
    and new: "active (types_table a2) = Some [(0, T_ref False 2), (2, T_ref True 2), (5, T_void)]"
    by (auto split: option.splits)
  have last: "LastOperation loop_graph (GetBlock loop_graph 2) = Some (Goto 1)"
    by (simp add: LastOperation_def loop_graph_def loop_Block_def loop_Get_def)
  from Run_iteration_loop_revisit[OF a1 last c a2 old new,
        where itr = "example_iterator [2]" and iterator = "([3], 0)"] example_loop_first_differ
  obtain a' where
    r: "Run_iteration loop_graph example_oracle (example_iterator [2]) 2 (([3], 0), a) =
          Some (MarkLoopForRevisitSkipHeader (example_iterator [2]) ([3], 0), a')"
    and b: "block_to_snapshot a' =
          (block_to_snapshot a1)(1 := Some [(0, T_ref False 2), (2, T_ref True 2), (5, T_void)])"
    by auto
  have "Option.bind (analyzer_after loop_graph example_oracle [0, 1])
     (\<lambda>a. map_option (\<lambda>(it, a'). (it, block_to_snapshot a' 1))
        (Run_iteration loop_graph example_oracle (example_iterator [2]) 2 (([3], 0), a))) =
     map_option (\<lambda>(it, a'). (it, block_to_snapshot a' 1))
        (Run_iteration loop_graph example_oracle (example_iterator [2]) 2 (([3], 0), a))"
    unfolding a by simp
  also have "\<dots> = Some (([2, 3], 1), Some [(0, T_ref False 2), (2, T_ref True 2), (5, T_void)])"
    unfolding r by (simp add: b example_iterator_def)
  finally show "Option.bind (analyzer_after loop_graph example_oracle [0, 1])
     (\<lambda>a. map_option (\<lambda>(it, a'). (it, block_to_snapshot a' 1))
        (Run_iteration loop_graph example_oracle (example_iterator [2]) 2 (([3], 0), a))) =
     Some (([2, 3], 1), Some [(0, T_ref False 2), (2, T_ref True 2), (5, T_void)])" .
next
  from example_loop_second_visit obtain a a1 a2 where
    a: "analyzer_after loop_graph example_oracle [0, 1, 2] = Some a"
    and a1: "Run_process loop_graph example_oracle 2 a = Some a1"
    and c: "revisit_condition loop_graph 2 1 a1"
    and old: "block_to_snapshot a1 1 = Some [(0, T_ref False 2), (2, T_ref True 2), (5, T_void)]"
    and a2: "ProcessBlock loop_graph example_oracle 1 a1 = Some a2"
    and new: "active (types_table a2) = Some [(0, T_ref False 2), (2, T_ref True 2), (5, T_void)]"
    by (auto split: option.splits)
  have last: "LastOperation loop_graph (GetBlock loop_graph 2) = Some (Goto 1)"
    by (simp add: LastOperation_def loop_graph_def loop_Block_def loop_Get_def)
  from Run_iteration_loop_revisit[OF a1 last c a2 old new,
        where itr = "example_iterator [2]" and iterator = "([3], 1)"] example_loop_second_same
  obtain a' where
    r: "Run_iteration loop_graph example_oracle (example_iterator [2]) 2 (([3], 1), a) =
          Some (([3], 1), a')"
    and b: "block_to_snapshot a' = block_to_snapshot a1"
    by auto
  have "Option.bind (analyzer_after loop_graph example_oracle [0, 1, 2])
     (\<lambda>a. map_option (\<lambda>(it, a'). (it, block_to_snapshot a' 1))
        (Run_iteration loop_graph example_oracle (example_iterator [2]) 2 (([3], 1), a))) =
     map_option (\<lambda>(it, a'). (it, block_to_snapshot a' 1))
        (Run_iteration loop_graph example_oracle (example_iterator [2]) 2 (([3], 1), a))"
    unfolding a by simp
  also have "\<dots> = Some (([3], 1), Some [(0, T_ref False 2), (2, T_ref True 2), (5, T_void)])"
    unfolding r using old by (simp add: b)
  finally show "Option.bind (analyzer_after loop_graph example_oracle [0, 1, 2])
     (\<lambda>a. map_option (\<lambda>(it, a'). (it, block_to_snapshot a' 1))
        (Run_iteration loop_graph example_oracle (example_iterator [2]) 2 (([3], 1), a))) =
     Some (([3], 1), Some [(0, T_ref False 2), (2, T_ref True 2), (5, T_void)])" .
qed

text \<open>
  The claim as stated fails: the snapshot recorded for the header is the candidate, not
  the merge of the old snapshot and the candidate. In the loop with the dead forward
  edge, the header snapshot is \<open>[(0, T_ref False 2)]\<close> before the body is visited;
  after the visit of the body the recorded header snapshot holds \<open>T_ref True 2\<close> for
  the value 5 of the body, while the merge of the old snapshot and the candidate holds
  the unknown type for it.
\<close>

theorem Run_iteration_loop_revisit_counterexample:
  "Option.bind (analyzer_after dead_graph example_oracle [0, 1, 2]) (\<lambda>a. block_to_snapshot a 2) =
     Some [(0, T_ref False 2)] \<and>
   Option.bind (analyzer_after dead_graph example_oracle [0, 1, 2])
     (\<lambda>a. map_option (\<lambda>(it, a'). (it, block_to_snapshot a' 2))
        (Run_iteration dead_graph example_oracle (example_iterator [3]) 3 (([4, 5], 0), a))) =
     Some (([3, 4, 5], 1), Some [(0, T_ref False 2), (5, T_ref True 2)]) \<and>
   map_option (\<lambda>(changed, a'). (changed, active (types_table a')))
     (CreateMergeSnapshot example_oracle
        [[(0, T_ref False 2)], [(0, T_ref False 2), (5, T_ref True 2)]] [True, True]
        initial_analyzer) =
     Some (True, Some [(0, T_ref False 2), (5, T_void)])"
  by code_simp

lemma example_null_loop_visit:
  "case analyzer_after null_loop_graph example_oracle [0, 1] of
     None \<Rightarrow> False
   | Some a \<Rightarrow>
       (case Run_process null_loop_graph example_oracle 2 a of
          None \<Rightarrow> False
        | Some a1 \<Rightarrow>
            \<not> IsReachable a1 2 \<and> LastPredecessor (GetBlock null_loop_graph 1) = Some 2 \<and>
            block_to_snapshot a1 1 = Some [(0, T_ref False 2), (2, T_ref False 2)])"
  by code_simp

text \<open>
  C10. When the block ends in a goto and, after its processing, it is marked
  unreachable or it is not the last predecessor of the goto's destination, the
  iteration of \<^verbatim>\<open>Run\<close> ends with the analyzer as it is after the block's snapshot is
  recorded and with the iterator as it was: the header is not processed again and no
  revisit is asked for.
\<close>

theorem Run_iteration_no_revisit:
  assumes "Run_process g ora block a = Some a1"
    and "LastOperation g (GetBlock g block) = Some (Goto destination)"
    and "\<not> IsReachable a1 block \<or> LastPredecessor (GetBlock g destination) \<noteq> Some block"
  shows "Run_iteration g ora itr block (iterator, a) = Some (iterator, a1)"
  using assms by (auto simp: Run_iteration_def revisit_condition_def)

theorem Run_iteration_no_revisit_witness:
  "Option.bind (analyzer_after null_loop_graph example_oracle [0, 1])
     (\<lambda>a. map_option (\<lambda>(it, a'). (it, IsReachable a' 2, block_to_snapshot a' 1))
        (Run_iteration null_loop_graph example_oracle (example_iterator [2]) 2 (([3], 0), a))) =
   Some (([3], 0), False, Some [(0, T_ref False 2), (2, T_ref False 2)])"
proof -
  from example_null_loop_visit obtain a a1 where
    a: "analyzer_after null_loop_graph example_oracle [0, 1] = Some a"
    and a1: "Run_process null_loop_graph example_oracle 2 a = Some a1"
    and c: "\<not> IsReachable a1 2"
    and old: "block_to_snapshot a1 1 = Some [(0, T_ref False 2), (2, T_ref False 2)]"
    by (auto split: option.splits)
  have last: "LastOperation null_loop_graph (GetBlock null_loop_graph 2) = Some (Goto 1)"
    by (simp add: LastOperation_def null_loop_graph_def loop_Block_def null_loop_Get_def loop_Get_def)
  have r: "Run_iteration null_loop_graph example_oracle (example_iterator [2]) 2 (([3], 0), a) =
      Some (([3], 0), a1)"
    using c by (intro Run_iteration_no_revisit[OF a1 last]) simp
  have "Option.bind (analyzer_after null_loop_graph example_oracle [0, 1])
     (\<lambda>a. map_option (\<lambda>(it, a'). (it, IsReachable a' 2, block_to_snapshot a' 1))
        (Run_iteration null_loop_graph example_oracle (example_iterator [2]) 2 (([3], 0), a))) =
     map_option (\<lambda>(it, a'). (it, IsReachable a' 2, block_to_snapshot a' 1))
        (Run_iteration null_loop_graph example_oracle (example_iterator [2]) 2 (([3], 0), a))"
    unfolding a by simp
  also have "\<dots> = Some (([3], 0), False, Some [(0, T_ref False 2), (2, T_ref False 2)])"
    unfolding r using c old by simp
  finally show ?thesis .
qed


end
